theory Spec2Isabelle
  imports Main "HOL-Library.AList"
begin

section \<open>Strings\<close>

text \<open>
  Python strings are modelled as \<^typ>\<open>string\<close>, one \<^typ>\<open>char\<close> per character, restricted
  to ASCII: \<open>str.lower\<close>, \<open>str.upper\<close>, \<open>str.isalnum\<close> and \<open>str.strip\<close> are given on ASCII
  characters only, and \<open>len\<close> is \<^const>\<open>length\<close>.
\<close>

definition sq :: string where
  "sq = [CHR 0x27]"

definition ascii_uppercase :: string where
  "ascii_uppercase = ''ABCDEFGHIJKLMNOPQRSTUVWXYZ''"

definition ascii_lowercase :: string where
  "ascii_lowercase = ''abcdefghijklmnopqrstuvwxyz''"

definition ascii_digits :: string where
  "ascii_digits = ''0123456789''"

definition ascii_whitespace :: string where
  "ascii_whitespace = [CHR '' '', CHR 0x09, CHR 0x0A, CHR 0x0B, CHR 0x0C, CHR 0x0D,
                       CHR 0x1C, CHR 0x1D, CHR 0x1E, CHR 0x1F]"

definition lower_char :: "char \<Rightarrow> char" where
  "lower_char c = (case map_of (zip ascii_uppercase ascii_lowercase) c of Some d \<Rightarrow> d | None \<Rightarrow> c)"

definition upper_char :: "char \<Rightarrow> char" where
  "upper_char c = (case map_of (zip ascii_lowercase ascii_uppercase) c of Some d \<Rightarrow> d | None \<Rightarrow> c)"

definition str_lower :: "string \<Rightarrow> string" where
  "str_lower s = map lower_char s"

definition str_upper :: "string \<Rightarrow> string" where
  "str_upper s = map upper_char s"

text \<open>\<open>s.isalnum()\<close>: at least one character, all of them letters or digits.\<close>

definition isalnum :: "string \<Rightarrow> bool" where
  "isalnum s = (s \<noteq> [] \<and> list_all (\<lambda>c. c \<in> set (ascii_digits @ ascii_uppercase @ ascii_lowercase)) s)"

text \<open>\<open>not s.strip()\<close>: nothing is left of \<open>s\<close> once its whitespace is stripped.\<close>

definition strip_is_empty :: "string \<Rightarrow> bool" where
  "strip_is_empty s = list_all (\<lambda>c. c \<in> set ascii_whitespace) s"

text \<open>\<open>s.replace(c, '')\<close> for a one-character \<open>c\<close>.\<close>

definition remove_char :: "char \<Rightarrow> string \<Rightarrow> string" where
  "remove_char c s = filter (\<lambda>d. d \<noteq> c) s"

text \<open>\<open>sep.join(xs)\<close>.\<close>

fun join :: "string \<Rightarrow> string list \<Rightarrow> string" where
  "join sep [] = []"
| "join sep [x] = x"
| "join sep (x # y # ys) = x @ sep @ join sep (y # ys)"

text \<open>\<open>str(n)\<close> for an integer: its decimal digits, with a leading minus sign when negative.\<close>

function str_of_nat :: "nat \<Rightarrow> string" where
  "str_of_nat n = (if n < 10 then [ascii_digits ! n]
                   else str_of_nat (n div 10) @ [ascii_digits ! (n mod 10)])"
  by pat_completeness auto
termination
  by (relation "measure id") auto

declare str_of_nat.simps [simp del]

definition str_of_int :: "int \<Rightarrow> string" where
  "str_of_int i = (if i < 0 then CHR ''-'' # str_of_nat (nat (- i)) else str_of_nat (nat i))"

text \<open>\<open>needle in haystack\<close> for strings.\<close>

fun starts_with :: "string \<Rightarrow> string \<Rightarrow> bool" where
  "starts_with [] s = True"
| "starts_with (p # ps) [] = False"
| "starts_with (p # ps) (c # cs) = (p = c \<and> starts_with ps cs)"

fun contains :: "string \<Rightarrow> string \<Rightarrow> bool" where
  "contains needle [] = (needle = [])"
| "contains needle (c # cs) = (starts_with needle (c # cs) \<or> contains needle cs)"

section \<open>Values, built-in conversions and exceptions\<close>

text \<open>
  A value of the engine is one of Python's \<open>None\<close>, \<open>bool\<close>, \<open>int\<close> (unbounded), \<open>float\<close>
  and \<open>str\<close>. The carrier \<open>'f\<close> of floats is left open, and what Python's built-ins
  compute on floats and on number syntax is collected in the record \<open>builtins\<close>; every
  function of the engine that reaches one of them takes the record as its first argument.
\<close>

datatype 'f pyval = PyNone | PyBool bool | PyInt int | PyFloat 'f | PyStr string

datatype cmp = Less | Equal | Greater | Unordered

text \<open>
  \<^item> \<open>float_is_integer x\<close> is \<open>x.is_integer()\<close>, and \<open>int_of_float x\<close> is \<open>int(x)\<close> for such an \<open>x\<close>;
  \<^item> \<open>float_of_int i\<close> is \<open>float(i)\<close>, \<open>Inl m\<close> when it raises OverflowError with message \<open>m\<close>;
  \<^item> \<open>float_of_str s\<close> and \<open>int_of_str s\<close> are \<open>float(s)\<close> and \<open>int(s)\<close>, \<open>Inl m\<close> when they
    raise ValueError with message \<open>m\<close>;
  \<^item> \<open>str_of_float x\<close> is \<open>str(x)\<close>, \<open>float_truth x\<close> is \<open>bool(x)\<close>, and \<open>float_exceeds_1e308 x\<close>
    is \<open>abs(x) > 1e308\<close>;
  \<^item> \<open>cmp_float x y\<close> and \<open>cmp_float_int x i\<close> compare a float with a float and with an
    integer (\<open>Unordered\<close> when an operand is a NaN);
  \<^item> \<open>repr_str s\<close> is \<open>repr(s)\<close> of a string, and \<open>str_of_set xs\<close> is \<open>str\<close> of the set of
    strings \<open>xs\<close>, whose order of elements Python does not fix.
\<close>

record 'f builtins =
  float_is_integer :: "'f \<Rightarrow> bool"
  int_of_float :: "'f \<Rightarrow> int"
  float_of_int :: "int \<Rightarrow> string + 'f"
  float_of_str :: "string \<Rightarrow> string + 'f"
  int_of_str :: "string \<Rightarrow> string + int"
  str_of_float :: "'f \<Rightarrow> string"
  float_truth :: "'f \<Rightarrow> bool"
  float_exceeds_1e308 :: "'f \<Rightarrow> bool"
  cmp_float :: "'f \<Rightarrow> 'f \<Rightarrow> cmp"
  cmp_float_int :: "'f \<Rightarrow> int \<Rightarrow> cmp"
  repr_str :: "string \<Rightarrow> string"
  str_of_set :: "string list \<Rightarrow> string"

text \<open>
  An exception is its class and its message \<open>str(e)\<close>. The classes are those of
  \<open>exceptions.py\<close> that the engine raises, and the Python built-in ones it can meet.
\<close>

datatype exn_kind =
    ValueError | TypeError | OverflowError | IndexError | KeyError | NameError
  | SQLEngineError | ParseError | ValidationError | TableNotFoundError
  | ColumnNotFoundError | StorageError | ProcessingError | ExecutionError

datatype exn = Exn exn_kind string

fun exn_kind_of :: "exn \<Rightarrow> exn_kind" where
  "exn_kind_of (Exn k m) = k"

fun exn_message :: "exn \<Rightarrow> string" where
  "exn_message (Exn k m) = m"

text \<open>\<open>isinstance(e, SQLEngineError)\<close>: the base class and its subclasses.\<close>

definition is_SQLEngineError :: "exn \<Rightarrow> bool" where
  "is_SQLEngineError e = (exn_kind_of e \<in> {SQLEngineError, ParseError, ValidationError,
     TableNotFoundError, ColumnNotFoundError, StorageError, ProcessingError, ExecutionError})"

text \<open>\<open>str(v)\<close>, as an f-string renders a value, and \<open>repr(v)\<close>, as \<open>str\<close> of a list does.\<close>

fun py_str :: "'f builtins \<Rightarrow> 'f pyval \<Rightarrow> string" where
  "py_str P PyNone = ''None''"
| "py_str P (PyBool b) = (if b then ''True'' else ''False'')"
| "py_str P (PyInt i) = str_of_int i"
| "py_str P (PyFloat x) = str_of_float P x"
| "py_str P (PyStr s) = s"

fun py_repr :: "'f builtins \<Rightarrow> 'f pyval \<Rightarrow> string" where
  "py_repr P (PyStr s) = repr_str P s"
| "py_repr P v = py_str P v"

text \<open>\<open>str(xs)\<close> of a list whose elements have the representations \<open>xs\<close>.\<close>

definition str_of_list :: "string list \<Rightarrow> string" where
  "str_of_list xs = ''['' @ join '', '' xs @ '']''"

section \<open>Column (models/column.py)\<close>

record column =
  col_name :: string
  data_type :: string
  nullable :: bool
  max_length :: "int option"

definition valid_types :: "string list" where
  "valid_types = [''INT'', ''VARCHAR'', ''FLOAT'', ''BOOLEAN'']"

text \<open>The constructor with \<open>__post_init__\<close>: it validates, and defaults a VARCHAR's length.\<close>

definition Column :: "'f builtins \<Rightarrow> string \<Rightarrow> string \<Rightarrow> bool \<Rightarrow> int option \<Rightarrow> exn + column" where
  "Column P nm dt nl ml =
    (if nm = [] then Inl (Exn ValueError ''Column name cannot be empty'')
     else if dt \<notin> set valid_types then
       Inl (Exn ValueError (''Invalid data type: '' @ dt @ ''. Must be one of '' @ str_of_set P valid_types))
     else
       let ml' = (if dt = ''VARCHAR'' \<and> ml = None then Some 255 else ml) in
       if ml' \<noteq> None \<and> the ml' \<le> 0 then Inl (Exn ValueError ''max_length must be positive'')
       else Inr \<lparr>col_name = nm, data_type = dt, nullable = nl, max_length = ml'\<rparr>)"

text \<open>\<open>self.max_length or 255\<close>: \<open>None\<close> and \<open>0\<close> are falsy.\<close>

definition max_length_or_255 :: "column \<Rightarrow> int" where
  "max_length_or_255 c = (case max_length c of None \<Rightarrow> 255 | Some n \<Rightarrow> if n = 0 then 255 else n)"

fun validate_value :: "column \<Rightarrow> 'f pyval \<Rightarrow> bool" where
  "validate_value c PyNone = nullable c"
| "validate_value c v =
    (if data_type c = ''INT'' then (case v of PyInt i \<Rightarrow> True | _ \<Rightarrow> False)
     else if data_type c = ''FLOAT'' then (case v of PyInt i \<Rightarrow> True | PyFloat x \<Rightarrow> True | _ \<Rightarrow> False)
     else if data_type c = ''VARCHAR'' then
       (case v of PyStr s \<Rightarrow> int (length s) \<le> max_length_or_255 c | _ \<Rightarrow> False)
     else if data_type c = ''BOOLEAN'' then (case v of PyBool b \<Rightarrow> True | _ \<Rightarrow> False)
     else False)"

text \<open>
  \<open>int(value)\<close> and \<open>float(value)\<close> on a value that is not \<open>None\<close>. \<open>int\<close> of a float is
  only reached for a float whose \<open>is_integer()\<close> holds.
\<close>

fun py_int :: "'f builtins \<Rightarrow> 'f pyval \<Rightarrow> exn + int" where
  "py_int P (PyBool b) = Inr (if b then 1 else 0)"
| "py_int P (PyInt i) = Inr i"
| "py_int P (PyFloat x) = Inr (int_of_float P x)"
| "py_int P (PyStr s) = (case int_of_str P s of Inl m \<Rightarrow> Inl (Exn ValueError m) | Inr i \<Rightarrow> Inr i)"
| "py_int P PyNone = Inl (Exn TypeError (''int() argument must be a string, a bytes-like object or a real number, not '' @ sq @ ''NoneType'' @ sq))"

fun py_float :: "'f builtins \<Rightarrow> 'f pyval \<Rightarrow> exn + 'f" where
  "py_float P (PyBool b) =
     (case float_of_int P (if b then 1 else 0) of Inl m \<Rightarrow> Inl (Exn OverflowError m) | Inr x \<Rightarrow> Inr x)"
| "py_float P (PyInt i) =
     (case float_of_int P i of Inl m \<Rightarrow> Inl (Exn OverflowError m) | Inr x \<Rightarrow> Inr x)"
| "py_float P (PyFloat x) = Inr x"
| "py_float P (PyStr s) = (case float_of_str P s of Inl m \<Rightarrow> Inl (Exn ValueError m) | Inr x \<Rightarrow> Inr x)"
| "py_float P PyNone = Inl (Exn TypeError (''float() argument must be a string or a real number, not '' @ sq @ ''NoneType'' @ sq))"

text \<open>The body of the \<open>try\<close> of \<open>convert_value\<close>, for a value that is not \<open>None\<close>.\<close>

definition convert_body :: "'f builtins \<Rightarrow> column \<Rightarrow> 'f pyval \<Rightarrow> exn + 'f pyval" where
  "convert_body P c v =
    (if data_type c = ''INT'' then
       (case v of
          PyFloat x \<Rightarrow>
            if \<not> float_is_integer P x
            then Inl (Exn ValueError (''Cannot convert non-integer float '' @ py_str P v @ '' to INT''))
            else map_sum id PyInt (py_int P v)
        | _ \<Rightarrow> map_sum id PyInt (py_int P v))
     else if data_type c = ''FLOAT'' then map_sum id PyFloat (py_float P v)
     else if data_type c = ''VARCHAR'' then
       (let str_value = py_str P v in
        if int (length str_value) > max_length_or_255 c
        then Inl (Exn ValueError (''String too long for column '' @ col_name c))
        else Inr (PyStr str_value))
     else if data_type c = ''BOOLEAN'' then
       (case v of
          PyBool b \<Rightarrow> Inr v
        | PyStr s \<Rightarrow> Inr (PyBool (str_lower s \<in> set [''true'', ''1'', ''yes'', ''on'']))
        | PyInt i \<Rightarrow> Inr (PyBool (i \<noteq> 0))
        | PyFloat x \<Rightarrow> Inr (PyBool (float_truth P x))
        | PyNone \<Rightarrow> Inr (PyBool False))
     else Inr v)"

text \<open>
  \<open>convert_value\<close>: \<open>None\<close> is decided by \<open>nullable\<close>; a ValueError or TypeError of the body
  is raised again as a ValueError that names the value, the type and the column, and any
  other exception (the OverflowError of \<open>float\<close>) passes through.
\<close>

definition convert_value :: "'f builtins \<Rightarrow> column \<Rightarrow> 'f pyval \<Rightarrow> exn + 'f pyval" where
  "convert_value P c v =
    (if v = PyNone then
       (if \<not> nullable c then Inl (Exn ValueError (''Column '' @ col_name c @ '' cannot be null''))
        else Inr PyNone)
     else
       (case convert_body P c v of
          Inl (Exn k m) \<Rightarrow>
            if k = ValueError \<or> k = TypeError
            then Inl (Exn ValueError (''Cannot convert value '' @ py_str P v @ '' to '' @ data_type c
                                      @ '' for column '' @ col_name c @ '': '' @ m))
            else Inl (Exn k m)
        | Inr v' \<Rightarrow> Inr v'))"

section \<open>Schema (models/schema.py)\<close>

text \<open>
  A schema holds its columns and the dictionary \<open>_column_index\<close> from the lower-cased name
  to the position, built once by the constructor. The dictionary is an association list
  in insertion order; the constructor has checked its keys distinct.
\<close>

record schema =
  columns :: "column list"
  column_index :: "(string \<times> nat) list"

definition Schema :: "column list \<Rightarrow> exn + schema" where
  "Schema cols =
    (if cols = [] then Inl (Exn ValueError ''Schema must have at least one column'')
     else
       let column_names = map (\<lambda>col. str_lower (col_name col)) cols in
       if length column_names \<noteq> card (set column_names)
       then Inl (Exn ValueError ''Duplicate column names are not allowed'')
       else Inr \<lparr>columns = cols,
                 column_index = zip (map (\<lambda>col. str_lower (col_name col)) cols) [0 ..< length cols]\<rparr>)"

definition get_column_names :: "schema \<Rightarrow> string list" where
  "get_column_names s = map col_name (columns s)"

definition get_column_index :: "schema \<Rightarrow> string \<Rightarrow> exn + nat" where
  "get_column_index s nm =
    (case map_of (column_index s) (str_lower nm) of
       None \<Rightarrow> Inl (Exn ValidationError (''Column '' @ sq @ nm @ sq @ '' not found in schema''))
     | Some index \<Rightarrow> Inr index)"

definition validate_row :: "schema \<Rightarrow> 'f pyval list \<Rightarrow> bool" where
  "validate_row s vs =
    (if length vs \<noteq> length (columns s) then False
     else list_all (\<lambda>(v, c). validate_value c v) (zip vs (columns s)))"

text \<open>The loop of \<open>convert_row\<close> over \<open>zip(values, self.columns)\<close>: the first failure ends it.\<close>

fun convert_zip :: "'f builtins \<Rightarrow> 'f pyval list \<Rightarrow> column list \<Rightarrow> exn + 'f pyval list" where
  "convert_zip P (v # vs) (c # cs) =
    (case convert_value P c v of
       Inl e \<Rightarrow> Inl e
     | Inr v' \<Rightarrow> (case convert_zip P vs cs of Inl e \<Rightarrow> Inl e | Inr vs' \<Rightarrow> Inr (v' # vs')))"
| "convert_zip P vs cs = Inr []"

definition convert_row :: "'f builtins \<Rightarrow> schema \<Rightarrow> 'f pyval list \<Rightarrow> exn + 'f pyval list" where
  "convert_row P s vs =
    (if length vs \<noteq> length (columns s)
     then Inl (Exn ValidationError (''Expected '' @ str_of_nat (length (columns s)) @ '' values, got ''
                                    @ str_of_nat (length vs)))
     else convert_zip P vs (columns s))"

text \<open>
  \<open>validate_and_convert_row\<close>: every exception of its \<open>try\<close>, its own ValidationError
  included, is raised again as a ValidationError that quotes the message.
\<close>

definition validate_and_convert_row :: "'f builtins \<Rightarrow> schema \<Rightarrow> 'f pyval list \<Rightarrow> exn + 'f pyval list" where
  "validate_and_convert_row P s vs =
    (case (case convert_row P s vs of
             Inl e \<Rightarrow> Inl e
           | Inr converted \<Rightarrow>
               if \<not> validate_row s converted
               then Inl (Exn ValidationError ''Row validation failed after conversion'')
               else Inr converted) of
       Inl e \<Rightarrow> Inl (Exn ValidationError (''Row validation failed: '' @ exn_message e))
     | Inr converted \<Rightarrow> Inr converted)"

subsection \<open>The description form of a schema\<close>

text \<open>
  \<open>to_dict\<close> writes one dictionary per column under the key \<open>'columns'\<close>. A dictionary is
  modelled by one optional field per key that \<open>from_dict\<close> reads: \<open>None\<close> is the absent
  key, and \<open>max_length\<close> may also be present with the value \<open>None\<close>.
\<close>

record column_dict =
  cd_name :: "string option"
  cd_data_type :: "string option"
  cd_nullable :: "bool option"
  cd_max_length :: "int option option"

record schema_dict =
  sd_columns :: "column_dict list option"

definition to_dict :: "schema \<Rightarrow> schema_dict" where
  "to_dict s =
    \<lparr>sd_columns = Some (map (\<lambda>col. \<lparr>cd_name = Some (col_name col),
                                      cd_data_type = Some (data_type col),
                                      cd_nullable = Some (nullable col),
                                      cd_max_length = Some (max_length col)\<rparr>) (columns s))\<rparr>"

definition column_from_dict :: "'f builtins \<Rightarrow> column_dict \<Rightarrow> exn + column" where
  "column_from_dict P col_data =
    (case cd_name col_data of
       None \<Rightarrow> Inl (Exn KeyError (sq @ ''name'' @ sq))
     | Some nm \<Rightarrow>
        (case cd_data_type col_data of
           None \<Rightarrow> Inl (Exn KeyError (sq @ ''data_type'' @ sq))
         | Some dt \<Rightarrow>
             Column P nm dt
               (case cd_nullable col_data of None \<Rightarrow> True | Some b \<Rightarrow> b)
               (case cd_max_length col_data of None \<Rightarrow> None | Some ml \<Rightarrow> ml)))"

fun columns_from_dicts :: "'f builtins \<Rightarrow> column_dict list \<Rightarrow> exn + column list" where
  "columns_from_dicts P [] = Inr []"
| "columns_from_dicts P (d # ds) =
    (case column_from_dict P d of
       Inl e \<Rightarrow> Inl e
     | Inr c \<Rightarrow> (case columns_from_dicts P ds of Inl e \<Rightarrow> Inl e | Inr cs \<Rightarrow> Inr (c # cs)))"

definition from_dict :: "'f builtins \<Rightarrow> schema_dict \<Rightarrow> exn + schema" where
  "from_dict P data =
    (case sd_columns data of
       None \<Rightarrow> Inl (Exn KeyError (sq @ ''columns'' @ sq))
     | Some ds \<Rightarrow> (case columns_from_dicts P ds of Inl e \<Rightarrow> Inl e | Inr cs \<Rightarrow> Schema cs))"

text \<open>\<open>Schema.__eq__\<close> compares the column lists; \<open>Column\<close> is a dataclass, equal field by field.\<close>

definition schema_eq :: "schema \<Rightarrow> schema \<Rightarrow> bool" where
  "schema_eq s1 s2 = (columns s1 = columns s2)"

text \<open>A column as the constructor leaves it: constructing it again from its fields changes nothing.\<close>

definition column_ok :: "'f builtins \<Rightarrow> column \<Rightarrow> bool" where
  "column_ok P c = (Column P (col_name c) (data_type c) (nullable c) (max_length c) = Inr c)"

section \<open>Row and Table (models/row.py, models/table.py)\<close>

datatype 'f row = Row (row_values: "'f pyval list")

record 'f table =
  tbl_name :: string
  tbl_schema :: schema
  tbl_rows :: "'f row list"
  row_count :: nat

definition Table :: "string \<Rightarrow> schema \<Rightarrow> exn + 'f table" where
  "Table nm s =
    (if nm = [] then Inl (Exn ValueError ''Table name cannot be empty'')
     else Inr \<lparr>tbl_name = nm, tbl_schema = s, tbl_rows = [], row_count = 0\<rparr>)"

text \<open>
  \<open>Table.insert\<close>: the arity check of the table, then \<open>validate_and_convert_row\<close>, then
  the append and the count. Nothing is written before both checks have passed.
\<close>

definition table_insert :: "'f builtins \<Rightarrow> 'f table \<Rightarrow> 'f row \<Rightarrow> exn + 'f table" where
  "table_insert P t r =
    (if length (row_values r) \<noteq> length (columns (tbl_schema t))
     then Inl (Exn ValidationError
                (''Row has '' @ str_of_nat (length (row_values r)) @ '' values but table '' @ sq
                 @ tbl_name t @ sq @ '' expects '' @ str_of_nat (length (columns (tbl_schema t)))
                 @ '' columns''))
     else
       (case validate_and_convert_row P (tbl_schema t) (row_values r) of
          Inl e \<Rightarrow> Inl e
        | Inr validated_values \<Rightarrow>
            Inr (t\<lparr>tbl_rows := tbl_rows t @ [Row validated_values], row_count := row_count t + 1\<rparr>)))"

definition table_insert_values :: "'f builtins \<Rightarrow> 'f table \<Rightarrow> 'f pyval list \<Rightarrow> exn + 'f table" where
  "table_insert_values P t vs = table_insert P t (Row vs)"

text \<open>\<open>Table.scan\<close> yields the rows in list order; the model returns the list it yields.\<close>

definition scan :: "'f table \<Rightarrow> 'f row list" where
  "scan t = tbl_rows t"

text \<open>A sequence of \<open>insert_values\<close> calls on one table, stopped by the first that raises.\<close>

fun insert_all :: "'f builtins \<Rightarrow> 'f table \<Rightarrow> 'f pyval list list \<Rightarrow> exn + 'f table" where
  "insert_all P t [] = Inr t"
| "insert_all P t (vs # vss) =
    (case table_insert_values P t vs of Inl e \<Rightarrow> Inl e | Inr t' \<Rightarrow> insert_all P t' vss)"

section \<open>WhereClause (ast_nodes.py)\<close>

record 'f where_clause =
  wc_column :: string
  wc_operator :: string
  wc_value :: "'f pyval"

definition VALID_OPERATORS :: "string list" where
  "VALID_OPERATORS = [''='', ''>'', ''<'', ''>='', ''<='', ''!='', ''<>'']"

definition WhereClause :: "'f builtins \<Rightarrow> string \<Rightarrow> string \<Rightarrow> 'f pyval \<Rightarrow> exn + 'f where_clause" where
  "WhereClause P col op v =
    (if col = [] then Inl (Exn ValueError ''Column name cannot be empty'')
     else if op \<notin> set VALID_OPERATORS then
       Inl (Exn ValueError (''Invalid operator '' @ sq @ op @ sq @ ''. Must be one of ''
                            @ str_of_set P VALID_OPERATORS))
     else Inr \<lparr>wc_column = col, wc_operator = op, wc_value = v\<rparr>)"

subsection \<open>Python's comparisons on values\<close>

text \<open>
  Strings compare with strings, character by character; \<open>bool\<close>, \<open>int\<close> and \<open>float\<close>
  compare with each other as numbers, \<open>True\<close> being 1 and \<open>False\<close> 0. Between a string and
  a number, and between \<open>None\<close> and anything else, \<open>==\<close> is \<open>False\<close>, \<open>!=\<close> is \<open>True\<close> and
  the four orderings raise TypeError.
\<close>

fun str_cmp :: "string \<Rightarrow> string \<Rightarrow> cmp" where
  "str_cmp [] [] = Equal"
| "str_cmp [] (y # ys) = Less"
| "str_cmp (x # xs) [] = Greater"
| "str_cmp (x # xs) (y # ys) =
    (if (of_char x :: nat) < of_char y then Less
     else if (of_char y :: nat) < of_char x then Greater
     else str_cmp xs ys)"

datatype 'f num = NumInt int | NumFloat 'f

fun as_num :: "'f pyval \<Rightarrow> 'f num option" where
  "as_num (PyBool b) = Some (NumInt (if b then 1 else 0))"
| "as_num (PyInt i) = Some (NumInt i)"
| "as_num (PyFloat x) = Some (NumFloat x)"
| "as_num v = None"

fun flip_cmp :: "cmp \<Rightarrow> cmp" where
  "flip_cmp Less = Greater"
| "flip_cmp Greater = Less"
| "flip_cmp c = c"

fun num_cmp :: "'f builtins \<Rightarrow> 'f num \<Rightarrow> 'f num \<Rightarrow> cmp" where
  "num_cmp P (NumInt a) (NumInt b) = (if a < b then Less else if a = b then Equal else Greater)"
| "num_cmp P (NumFloat x) (NumFloat y) = cmp_float P x y"
| "num_cmp P (NumFloat x) (NumInt b) = cmp_float_int P x b"
| "num_cmp P (NumInt a) (NumFloat y) = flip_cmp (cmp_float_int P y a)"

text \<open>The comparison of two values, \<open>None\<close> when their types do not compare.\<close>

definition py_compare :: "'f builtins \<Rightarrow> 'f pyval \<Rightarrow> 'f pyval \<Rightarrow> cmp option" where
  "py_compare P a b =
    (case (a, b) of
       (PyStr s, PyStr t) \<Rightarrow> Some (str_cmp s t)
     | _ \<Rightarrow> (case (as_num a, as_num b) of
               (Some x, Some y) \<Rightarrow> Some (num_cmp P x y)
             | _ \<Rightarrow> None))"

fun type_name :: "'f pyval \<Rightarrow> string" where
  "type_name PyNone = ''NoneType''"
| "type_name (PyBool b) = ''bool''"
| "type_name (PyInt i) = ''int''"
| "type_name (PyFloat x) = ''float''"
| "type_name (PyStr s) = ''str''"

definition py_eq :: "'f builtins \<Rightarrow> 'f pyval \<Rightarrow> 'f pyval \<Rightarrow> bool" where
  "py_eq P a b =
    (case py_compare P a b of Some c \<Rightarrow> c = Equal | None \<Rightarrow> a = PyNone \<and> b = PyNone)"

definition py_ne :: "'f builtins \<Rightarrow> 'f pyval \<Rightarrow> 'f pyval \<Rightarrow> bool" where
  "py_ne P a b = (\<not> py_eq P a b)"

text \<open>An ordering \<open>a op b\<close> that holds exactly when the comparison is one of \<open>accepted\<close>.\<close>

definition py_order :: "'f builtins \<Rightarrow> string \<Rightarrow> cmp list \<Rightarrow> 'f pyval \<Rightarrow> 'f pyval \<Rightarrow> exn + bool" where
  "py_order P op accepted a b =
    (case py_compare P a b of
       Some c \<Rightarrow> Inr (c \<in> set accepted)
     | None \<Rightarrow> Inl (Exn TypeError (sq @ op @ sq @ '' not supported between instances of '' @ sq
                                   @ type_name a @ sq @ '' and '' @ sq @ type_name b @ sq)))"

subsection \<open>Evaluation of a predicate\<close>

text \<open>
  \<open>WhereClause.evaluate\<close>. The result is \<open>Inr\<close> of the boolean it returns; \<open>Inl\<close> would be
  an exception leaving it, which only an exception other than TypeError could be.
\<close>

definition evaluate :: "'f builtins \<Rightarrow> 'f where_clause \<Rightarrow> 'f pyval \<Rightarrow> exn + bool" where
  "evaluate P w row_value =
    (if row_value = PyNone \<or> wc_value w = PyNone then
       (if wc_operator w \<in> set [''='', ''!='', ''<>''] then
          (if wc_operator w = ''=''
           then Inr ((row_value = PyNone) = (wc_value w = PyNone))
           else Inr ((row_value = PyNone) \<noteq> (wc_value w = PyNone)))
        else Inr False)
     else
       (case
          (if wc_operator w = ''='' then Inr (Some (py_eq P row_value (wc_value w)))
           else if wc_operator w \<in> set [''!='', ''<>''] then Inr (Some (py_ne P row_value (wc_value w)))
           else if wc_operator w = ''>'' then
             map_sum id Some (py_order P ''>'' [Greater] row_value (wc_value w))
           else if wc_operator w = ''<'' then
             map_sum id Some (py_order P ''<'' [Less] row_value (wc_value w))
           else if wc_operator w = ''>='' then
             map_sum id Some (py_order P ''>='' [Greater, Equal] row_value (wc_value w))
           else if wc_operator w = ''<='' then
             map_sum id Some (py_order P ''<='' [Less, Equal] row_value (wc_value w))
           else Inr None) of
          Inl e \<Rightarrow> if exn_kind_of e = TypeError then Inr False else Inl e
        | Inr (Some b) \<Rightarrow> Inr b
        | Inr None \<Rightarrow> Inr False))"

text \<open>Two values, neither \<open>None\<close>, whose types do not compare: a string and a number.\<close>

definition type_mismatch :: "'f pyval \<Rightarrow> 'f pyval \<Rightarrow> bool" where
  "type_mismatch a b =
    (a \<noteq> PyNone \<and> b \<noteq> PyNone \<and> ((case a of PyStr s \<Rightarrow> True | _ \<Rightarrow> False) \<noteq> (case b of PyStr s \<Rightarrow> True | _ \<Rightarrow> False)))"

section \<open>StorageManager (storage_manager.py)\<close>

text \<open>
  The registry \<open>self.tables\<close> is a dictionary from the lower-cased name to the table. It is
  an association list in insertion order (the order in which \<open>get_table\<close> lists the names):
  a new key is appended, and a table changed in place keeps its position. File
  persistence is outside the model.
\<close>

record 'f storage_manager =
  tables :: "(string \<times> 'f table) list"

definition quoted :: "string \<Rightarrow> string" where
  "quoted s = sq @ s @ sq"

definition create_table :: "'f storage_manager \<Rightarrow> string \<Rightarrow> schema \<Rightarrow> exn + 'f storage_manager" where
  "create_table st nm s =
    (if nm = [] \<or> strip_is_empty nm then Inl (Exn ValidationError ''Table name cannot be empty'')
     else if \<not> isalnum (remove_char CHR ''-'' (remove_char CHR ''_'' nm)) then
       Inl (Exn ValidationError (''Invalid table name: '' @ quoted nm
              @ ''. Table names must contain only letters, numbers, underscores, and hyphens''))
     else if length (columns s) = 0 then Inl (Exn ValidationError ''Schema cannot be None'')
     else if columns s = [] then Inl (Exn ValidationError ''Schema must have at least one column'')
     else
       let table_name_lower = str_lower nm in
       if map_of (tables st) table_name_lower \<noteq> None
       then Inl (Exn StorageError (''Table '' @ quoted nm @ '' already exists''))
       else
         (case Table nm s of
            Inl e \<Rightarrow> Inl (Exn StorageError (''Failed to create table '' @ quoted nm @ '': '' @ exn_message e))
          | Inr t \<Rightarrow> Inr (st\<lparr>tables := AList.update table_name_lower t (tables st)\<rparr>)))"

definition get_table :: "'f storage_manager \<Rightarrow> string \<Rightarrow> exn + 'f table" where
  "get_table st nm =
    (if nm = [] \<or> strip_is_empty nm then Inl (Exn ValidationError ''Table name cannot be empty'')
     else
       (case map_of (tables st) (str_lower nm) of
          None \<Rightarrow>
            let available_tables = map fst (tables st) in
            if available_tables \<noteq> []
            then Inl (Exn TableNotFoundError (''Table '' @ quoted nm @ '' does not exist. Available tables: ''
                                             @ join '', '' available_tables))
            else Inl (Exn TableNotFoundError (''Table '' @ quoted nm
                                             @ '' does not exist. No tables have been created yet''))
        | Some t \<Rightarrow> Inr t))"

text \<open>
  \<open>insert_values\<close>: the table found by \<open>get_table\<close> is changed in place, so the registry
  holds the new table under the same key.
\<close>

definition insert_values :: "'f builtins \<Rightarrow> 'f storage_manager \<Rightarrow> string \<Rightarrow> 'f pyval list \<Rightarrow> exn + 'f storage_manager" where
  "insert_values P st nm vs =
    (if vs = [] then Inl (Exn ValidationError ''Cannot insert empty values'')
     else
       (case (case get_table st nm of
                Inl e \<Rightarrow> Inl e
              | Inr t \<Rightarrow>
                  (case table_insert_values P t vs of
                     Inl e \<Rightarrow> Inl e
                   | Inr t' \<Rightarrow> Inr (st\<lparr>tables := AList.update (str_lower nm) t' (tables st)\<rparr>))) of
          Inl e \<Rightarrow>
            if exn_kind_of e \<in> {ValidationError, TableNotFoundError} then Inl e
            else Inl (Exn StorageError (''Failed to insert values into table '' @ quoted nm @ '': ''
                                       @ exn_message e))
        | Inr st' \<Rightarrow> Inr st'))"

definition scan_table :: "'f storage_manager \<Rightarrow> string \<Rightarrow> exn + 'f row list" where
  "scan_table st nm = (case get_table st nm of Inl e \<Rightarrow> Inl e | Inr t \<Rightarrow> Inr (scan t))"

section \<open>Operations (query_processor.py)\<close>

datatype 'f operation =
    CreateTableOperation string schema
  | InsertOperation string "'f pyval list"
  | ScanOperation string
  | ProjectOperation "string list"
  | FilterOperation "'f where_clause"

text \<open>What an operation's \<open>execute\<close> returns: a status string or a list of rows.\<close>

datatype 'f op_result = ResStr string | ResRows "'f row list"

text \<open>\<open>xs[i]\<close> for a non-negative \<open>i\<close>, raising IndexError out of range.\<close>

definition list_index :: "'a list \<Rightarrow> nat \<Rightarrow> exn + 'a" where
  "list_index xs i = (if i < length xs then Inr (xs ! i) else Inl (Exn IndexError ''list index out of range''))"

text \<open>A loop that collects \<open>f x\<close> for each \<open>x\<close>, ended by the first exception.\<close>

fun collect :: "('a \<Rightarrow> exn + 'b) \<Rightarrow> 'a list \<Rightarrow> exn + 'b list" where
  "collect f [] = Inr []"
| "collect f (x # xs) =
    (case f x of
       Inl e \<Rightarrow> Inl e
     | Inr y \<Rightarrow> (case collect f xs of Inl e \<Rightarrow> Inl e | Inr ys \<Rightarrow> Inr (y # ys)))"

text \<open>
  The lookup of a column for an operation: the ValidationError of \<open>get_column_index\<close>
  (or a ValueError) becomes a ColumnNotFoundError naming the column and the table.
\<close>

definition find_column_index :: "schema \<Rightarrow> string \<Rightarrow> string \<Rightarrow> exn + nat" where
  "find_column_index s table_name col =
    (case get_column_index s col of
       Inl e \<Rightarrow>
         if exn_kind_of e \<in> {ValueError, ValidationError}
         then Inl (Exn ColumnNotFoundError (''Column '' @ quoted col @ '' not found in table ''
                                           @ quoted table_name))
         else Inl e
     | Inr i \<Rightarrow> Inr i)"

text \<open>
  \<open>ProjectOperation.execute(storage, input_rows, table_name)\<close>; an argument left out is
  \<open>None\<close>. An empty \<open>input_rows\<close> returns before the table and the columns are looked at.
\<close>

definition project_execute ::
  "'f storage_manager \<Rightarrow> string list \<Rightarrow> 'f row list option \<Rightarrow> string option \<Rightarrow> exn + 'f row list" where
  "project_execute st cols input_rows table_name =
    (case input_rows of
       None \<Rightarrow> Inl (Exn ValueError ''ProjectOperation requires input rows'')
     | Some rows \<Rightarrow>
         if rows = [] then Inr []
         else
           (case table_name of
              None \<Rightarrow> Inl (Exn ValueError ''ProjectOperation requires table_name to determine schema'')
            | Some tn \<Rightarrow>
                (case get_table st tn of
                   Inl e \<Rightarrow> Inl e
                 | Inr t \<Rightarrow>
                     if length cols = 1 \<and> hd cols = ''*'' then Inr rows
                     else
                       (case collect (find_column_index (tbl_schema t) tn) cols of
                          Inl e \<Rightarrow> Inl e
                        | Inr column_indices \<Rightarrow>
                            collect (\<lambda>r. map_sum id Row (collect (list_index (row_values r)) column_indices))
                                    rows))))"

text \<open>\<open>FilterOperation.execute(storage, input_rows, table_name)\<close>.\<close>

definition filter_execute ::
  "'f builtins \<Rightarrow> 'f storage_manager \<Rightarrow> 'f where_clause \<Rightarrow> 'f row list option \<Rightarrow> string option
   \<Rightarrow> exn + 'f row list" where
  "filter_execute P st w input_rows table_name =
    (case input_rows of
       None \<Rightarrow> Inl (Exn ValueError ''FilterOperation requires input rows'')
     | Some rows \<Rightarrow>
         if rows = [] then Inr []
         else
           (case table_name of
              None \<Rightarrow> Inl (Exn ValueError ''FilterOperation requires table_name to determine schema'')
            | Some tn \<Rightarrow>
                (case get_table st tn of
                   Inl e \<Rightarrow> Inl e
                 | Inr t \<Rightarrow>
                     (case find_column_index (tbl_schema t) tn (wc_column w) of
                        Inl e \<Rightarrow> Inl e
                      | Inr idx \<Rightarrow>
                          (case collect (\<lambda>r. case list_index (row_values r) idx of
                                               Inl e \<Rightarrow> Inl e
                                             | Inr row_value \<Rightarrow> evaluate P w row_value) rows of
                             Inl e \<Rightarrow> Inl e
                           | Inr keep \<Rightarrow> Inr (map fst (filter snd (zip rows keep))))))))"

text \<open>
  \<open>operation.execute(storage)\<close>, the call of \<open>execute_operation\<close>, which passes the storage
  only: the result or the exception, and the storage after the call.
\<close>

fun operation_execute ::
  "'f builtins \<Rightarrow> 'f storage_manager \<Rightarrow> 'f operation \<Rightarrow> (exn + 'f op_result) \<times> 'f storage_manager" where
  "operation_execute P st (CreateTableOperation nm s) =
    (case create_table st nm s of
       Inl e \<Rightarrow> (Inl e, st)
     | Inr st' \<Rightarrow> (Inr (ResStr (''Table '' @ quoted nm @ '' created successfully.'')), st'))"
| "operation_execute P st (InsertOperation nm vs) =
    (case get_table st nm of
       Inl e \<Rightarrow> (Inl e, st)
     | Inr t \<Rightarrow>
         (case insert_values P st nm vs of
            Inl e \<Rightarrow> (Inl e, st)
          | Inr st' \<Rightarrow> (Inr (ResStr (''1 row inserted into table '' @ quoted (tbl_name t) @ ''.'')), st')))"
| "operation_execute P st (ScanOperation nm) = (map_sum id ResRows (scan_table st nm), st)"
| "operation_execute P st (ProjectOperation cols) = (map_sum id ResRows (project_execute st cols None None), st)"
| "operation_execute P st (FilterOperation w) = (map_sum id ResRows (filter_execute P st w None None), st)"

section \<open>ExecutionEngine (execution_engine.py)\<close>

record 'f query_result =
  qr_columns :: "string list"
  qr_rows :: "'f row list"
  qr_message :: "string option"

definition message_result :: "string \<Rightarrow> 'f query_result" where
  "message_result m = \<lparr>qr_columns = [], qr_rows = [], qr_message = Some m\<rparr>"

definition is_data_result :: "'f query_result \<Rightarrow> bool" where
  "is_data_result r = (qr_columns r \<noteq> [] \<or> qr_rows r \<noteq> [])"

definition is_message_result :: "'f query_result \<Rightarrow> bool" where
  "is_message_result r = (case qr_message r of None \<Rightarrow> False | Some m \<Rightarrow> m \<noteq> [])"

text \<open>\<open>str(rows)\<close> of a list of rows, through \<open>Row.__repr__\<close>.\<close>

definition str_of_rows :: "'f builtins \<Rightarrow> 'f row list \<Rightarrow> string" where
  "str_of_rows P rows =
    str_of_list (map (\<lambda>r. ''Row('' @ str_of_list (map (py_repr P) (row_values r)) @ '')'') rows)"

text \<open>
  The module \<open>execution_engine.py\<close> imports ExecutionError, StorageError, ValidationError,
  TableNotFoundError and ColumnNotFoundError, and not ProcessingError. The handlers of
  \<open>execute\<close> and of \<open>execute_operation\<close> begin with
  \<open>except (StorageError, ValidationError, TableNotFoundError, ColumnNotFoundError, ProcessingError)\<close>.
  Python evaluates that tuple when an exception reaches the handler, whatever its class;
  the name \<open>ProcessingError\<close> is unbound there, so the evaluation raises NameError, which
  leaves the \<open>try\<close> statement in place of the exception that was being handled.
\<close>

definition unbound_name :: "string \<Rightarrow> exn" where
  "unbound_name n = Exn NameError (''name '' @ quoted n @ '' is not defined'')"

definition execute_operation ::
  "'f builtins \<Rightarrow> 'f storage_manager \<Rightarrow> 'f operation \<Rightarrow> (exn + 'f query_result) \<times> 'f storage_manager" where
  "execute_operation P st op =
    (case operation_execute P st op of
       (Inr (ResStr m), st') \<Rightarrow> (Inr (message_result m), st')
     | (Inr (ResRows rows), st') \<Rightarrow> (Inr (message_result (str_of_rows P rows)), st')
     | (Inl e, st') \<Rightarrow> (Inl (unbound_name ''ProcessingError''), st'))"

text \<open>
  The search of \<open>_execute_select_operations\<close> for its three operations: the last of each
  class wins. A ScanOperation is its table name.
\<close>

fun find_select_operations ::
  "'f operation list \<Rightarrow> string option \<times> 'f where_clause option \<times> string list option
   \<Rightarrow> string option \<times> 'f where_clause option \<times> string list option" where
  "find_select_operations [] acc = acc"
| "find_select_operations (ScanOperation nm # ops) (scan_op, filter_op, project_op) =
     find_select_operations ops (Some nm, filter_op, project_op)"
| "find_select_operations (FilterOperation w # ops) (scan_op, filter_op, project_op) =
     find_select_operations ops (scan_op, Some w, project_op)"
| "find_select_operations (ProjectOperation cols # ops) (scan_op, filter_op, project_op) =
     find_select_operations ops (scan_op, filter_op, Some cols)"
| "find_select_operations (op # ops) acc = find_select_operations ops acc"

definition select_pipeline ::
  "'f builtins \<Rightarrow> 'f storage_manager \<Rightarrow> 'f operation list \<Rightarrow> exn + 'f query_result" where
  "select_pipeline P st operations =
    (case find_select_operations operations (None, None, None) of
       (None, filter_op, project_op) \<Rightarrow> Inl (Exn ExecutionError ''No ScanOperation found in SELECT query'')
     | (Some table_name, filter_op, None) \<Rightarrow>
         Inl (Exn ExecutionError ''No ProjectOperation found in SELECT query'')
     | (Some table_name, filter_op, Some cols) \<Rightarrow>
         (case scan_table st table_name of
            Inl e \<Rightarrow> Inl e
          | Inr rows \<Rightarrow>
              (case (case filter_op of
                       None \<Rightarrow> Inr rows
                     | Some w \<Rightarrow> filter_execute P st w (Some rows) (Some table_name)) of
                 Inl e \<Rightarrow> Inl e
               | Inr rows' \<Rightarrow>
                   (case project_execute st cols (Some rows') (Some table_name) of
                      Inl e \<Rightarrow> Inl e
                    | Inr projected_rows \<Rightarrow>
                        (case (if length cols = 1 \<and> hd cols = ''*''
                               then (case get_table st table_name of
                                       Inl e \<Rightarrow> Inl e
                                     | Inr t \<Rightarrow> Inr (get_column_names (tbl_schema t)))
                               else Inr cols) of
                           Inl e \<Rightarrow> Inl e
                         | Inr column_names \<Rightarrow>
                             Inr \<lparr>qr_columns = column_names, qr_rows = projected_rows,
                                  qr_message = None\<rparr>)))))"

text \<open>
  \<open>_execute_select_operations\<close>: the pipeline under its handler, whose classes are all
  bound; it reads the storage and never writes it.
\<close>

definition execute_select_operations ::
  "'f builtins \<Rightarrow> 'f storage_manager \<Rightarrow> 'f operation list \<Rightarrow> exn + 'f query_result" where
  "execute_select_operations P st operations =
    (case select_pipeline P st operations of
       Inl e \<Rightarrow>
         if exn_kind_of e \<in> {StorageError, ValidationError, TableNotFoundError, ColumnNotFoundError}
         then Inl e
         else Inl (Exn ExecutionError (''Failed to execute SELECT operations: '' @ exn_message e))
     | Inr r \<Rightarrow> Inr r)"

text \<open>The loop of \<open>execute\<close> over the operations of a plan that is not a SELECT.\<close>

fun execute_sequentially ::
  "'f builtins \<Rightarrow> 'f storage_manager \<Rightarrow> 'f operation list \<Rightarrow> 'f query_result option
   \<Rightarrow> (exn + 'f query_result option) \<times> 'f storage_manager" where
  "execute_sequentially P st [] result = (Inr result, st)"
| "execute_sequentially P st (op # ops) result =
    (case execute_operation P st op of
       (Inl e, st') \<Rightarrow> (Inl e, st')
     | (Inr r, st') \<Rightarrow> execute_sequentially P st' ops (Some r))"

definition is_ScanOperation :: "'f operation \<Rightarrow> bool" where
  "is_ScanOperation op = (case op of ScanOperation nm \<Rightarrow> True | _ \<Rightarrow> False)"

text \<open>The body of the \<open>try\<close> of \<open>execute\<close>, for a plan that holds its list of operations.\<close>

definition execute_body ::
  "'f builtins \<Rightarrow> 'f storage_manager \<Rightarrow> 'f operation list \<Rightarrow> (exn + 'f query_result) \<times> 'f storage_manager" where
  "execute_body P st operations =
    (if operations = [] then (Inr (message_result ''No operations to execute.''), st)
     else if length operations \<ge> 2 \<and> list_ex is_ScanOperation operations
     then (execute_select_operations P st operations, st)
     else
       (case execute_sequentially P st operations None of
          (Inl e, st') \<Rightarrow> (Inl e, st')
        | (Inr None, st') \<Rightarrow> (Inr (message_result ''Operation completed successfully.''), st')
        | (Inr (Some r), st') \<Rightarrow> (Inr r, st')))"

definition execute ::
  "'f builtins \<Rightarrow> 'f storage_manager \<Rightarrow> 'f operation list \<Rightarrow> (exn + 'f query_result) \<times> 'f storage_manager" where
  "execute P st operations =
    (case execute_body P st operations of
       (Inl e, st') \<Rightarrow> (Inl (unbound_name ''ProcessingError''), st')
     | (Inr r, st') \<Rightarrow> (Inr r, st'))"

section \<open>QueryProcessor (query_processor.py)\<close>

datatype 'f ast =
    CreateTableNode string "column list"
  | InsertNode string "'f pyval list"
  | SelectNode string "string list" "'f where_clause option"

fun ast_type :: "'f ast \<Rightarrow> string" where
  "ast_type (CreateTableNode nm cols) = ''CreateTableNode''"
| "ast_type (InsertNode nm vs) = ''InsertNode''"
| "ast_type (SelectNode nm cols w) = ''SelectNode''"

text \<open>
  The handler shared by the three \<open>visit\<close> methods: a ProcessingError passes, any other
  exception becomes a ProcessingError that quotes it after the given prefix.
\<close>

definition visit_handler :: "string \<Rightarrow> exn + 'a \<Rightarrow> exn + 'a" where
  "visit_handler prefix r =
    (case r of
       Inl e \<Rightarrow> if exn_kind_of e = ProcessingError then Inl e
                else Inl (Exn ProcessingError (prefix @ '': '' @ exn_message e))
     | Inr plan \<Rightarrow> Inr plan)"

definition visit_create_table :: "string \<Rightarrow> column list \<Rightarrow> exn + 'f operation list" where
  "visit_create_table nm cols =
    visit_handler (''Failed to process CREATE TABLE for '' @ quoted nm)
      (if nm = [] then Inl (Exn ProcessingError ''Table name cannot be empty'')
       else if cols = [] then Inl (Exn ProcessingError ''Table must have at least one column'')
       else (case Schema cols of Inl e \<Rightarrow> Inl e | Inr s \<Rightarrow> Inr [CreateTableOperation nm s]))"

definition visit_insert :: "string \<Rightarrow> 'f pyval list \<Rightarrow> exn + 'f operation list" where
  "visit_insert nm vs =
    visit_handler (''Failed to process INSERT for table '' @ quoted nm)
      (if nm = [] then Inl (Exn ProcessingError ''Table name cannot be empty'')
       else if vs = [] then Inl (Exn ProcessingError ''INSERT must have at least one value'')
       else Inr [InsertOperation nm vs])"

definition visit_select :: "string \<Rightarrow> string list \<Rightarrow> 'f where_clause option \<Rightarrow> exn + 'f operation list" where
  "visit_select nm cols w =
    visit_handler (''Failed to process SELECT for table '' @ quoted nm)
      (if nm = [] then Inl (Exn ProcessingError ''Table name cannot be empty'')
       else if cols = [] then Inl (Exn ProcessingError ''SELECT must specify at least one column'')
       else Inr ([ScanOperation nm]
                 @ (case w of None \<Rightarrow> [] | Some wc \<Rightarrow> [FilterOperation wc])
                 @ [ProjectOperation cols]))"

fun accept :: "'f ast \<Rightarrow> exn + 'f operation list" where
  "accept (CreateTableNode nm cols) = visit_create_table nm cols"
| "accept (InsertNode nm vs) = visit_insert nm vs"
| "accept (SelectNode nm cols w) = visit_select nm cols w"

text \<open>
  \<open>process\<close>: the module \<open>query_processor.py\<close> imports ProcessingError and ValidationError
  only, and the handler of \<open>process\<close> begins with
  \<open>except (ValidationError, TableNotFoundError, ColumnNotFoundError)\<close>; an exception that
  reaches it raises NameError for the unbound \<open>TableNotFoundError\<close>.
\<close>

definition process :: "'f ast \<Rightarrow> exn + 'f operation list" where
  "process node =
    (case accept node of
       Inl e \<Rightarrow> Inl (unbound_name ''TableNotFoundError'')
     | Inr plan \<Rightarrow> Inr plan)"

section \<open>SQLEngine (sql_engine.py)\<close>

text \<open>
  \<open>execute_sql\<close> parses, processes and executes one statement. The parser holds no
  reference to the storage; it is the argument \<open>parse\<close>, from the text to the syntax tree
  or the exception it raises.
\<close>

definition sql_handler :: "exn \<Rightarrow> exn" where
  "sql_handler e =
    (if is_SQLEngineError e then e
     else Exn SQLEngineError (''Unexpected error executing SQL: '' @ exn_message e))"

definition execute_sql ::
  "'f builtins \<Rightarrow> (string \<Rightarrow> exn + 'f ast) \<Rightarrow> 'f storage_manager \<Rightarrow> string
   \<Rightarrow> (exn + 'f query_result) \<times> 'f storage_manager" where
  "execute_sql P parse st sql =
    (case parse sql of
       Inl e \<Rightarrow> (Inl (sql_handler e), st)
     | Inr node \<Rightarrow>
         (case process node of
            Inl e \<Rightarrow> (Inl (sql_handler e), st)
          | Inr plan \<Rightarrow>
              (case execute P st plan of
                 (Inl e, st') \<Rightarrow> (Inl (sql_handler e), st')
               | (Inr r, st') \<Rightarrow> (Inr r, st'))))"

section \<open>Literals (parser.py)\<close>

text \<open>\<open>SQLParser._parse_single_value\<close>, from the tokens of one value to the value.\<close>

definition parse_single_value :: "'f builtins \<Rightarrow> string list \<Rightarrow> exn + 'f pyval" where
  "parse_single_value P tokens =
    (if length tokens \<noteq> 1
     then Inl (Exn ParseError (''Invalid value: '' @ quoted (join '' '' tokens)
                              @ ''. Each value must be a single token''))
     else
       let token = hd tokens in
       if str_upper token = ''NULL'' then Inr PyNone
       else if str_upper token \<in> set [''TRUE'', ''FALSE''] then Inr (PyBool (str_upper token = ''TRUE''))
       else if CHR ''.'' \<in> set token then
         (case float_of_str P token of
            Inl m \<Rightarrow> Inr (PyStr token)
          | Inr x \<Rightarrow>
              if float_exceeds_1e308 P x then Inl (Exn ParseError (''Float value too large: '' @ token))
              else Inr (PyFloat x))
       else
         (case int_of_str P token of
            Inl m \<Rightarrow> Inr (PyStr token)
          | Inr i \<Rightarrow>
              if abs i > 2 ^ 63 - 1 then Inl (Exn ParseError (''Integer value too large: '' @ token))
              else Inr (PyInt i)))"

section \<open>An instance of the built-ins\<close>

text \<open>
  Concrete runs are evaluated under \<open>plain_builtins\<close>. Its floats are the
  integer-valued ones, each written as the integer it equals, and its numerals are an
  optional sign and decimal digits; Python accepts more (fractions, exponents, spaces and
  underscores in numerals). The runs evaluated below hold no float and convert no text.
\<close>

fun digits_value :: "string \<Rightarrow> nat \<Rightarrow> nat option" where
  "digits_value [] acc = Some acc"
| "digits_value (c # cs) acc =
    (case map_of (zip ascii_digits [0 ..< 10]) c of
       None \<Rightarrow> None
     | Some d \<Rightarrow> digits_value cs (10 * acc + d))"

definition plain_int_of_str :: "string \<Rightarrow> string + int" where
  "plain_int_of_str s =
    (let body = (if s \<noteq> [] \<and> hd s \<in> {CHR ''-'', CHR ''+''} then tl s else s) in
     case (if body = [] then None else digits_value body 0) of
       None \<Rightarrow> Inl (''invalid literal for int() with base 10: '' @ quoted s)
     | Some n \<Rightarrow> Inr (if s \<noteq> [] \<and> hd s = CHR ''-'' then - int n else int n))"

definition int_cmp :: "int \<Rightarrow> int \<Rightarrow> cmp" where
  "int_cmp a b = (if a < b then Less else if a = b then Equal else Greater)"

definition plain_builtins :: "int builtins" where
  "plain_builtins =
    \<lparr>float_is_integer = (\<lambda>x. True),
     int_of_float = (\<lambda>x. x),
     float_of_int = Inr,
     float_of_str = (\<lambda>s. case plain_int_of_str s of
                            Inl m \<Rightarrow> Inl (''could not convert string to float: '' @ quoted s)
                          | Inr i \<Rightarrow> Inr i),
     int_of_str = plain_int_of_str,
     str_of_float = (\<lambda>x. str_of_int x @ ''.0''),
     float_truth = (\<lambda>x. x \<noteq> 0),
     float_exceeds_1e308 = (\<lambda>x. abs x > 10 ^ 308),
     cmp_float = int_cmp,
     cmp_float_int = int_cmp,
     repr_str = quoted,
     str_of_set = (\<lambda>xs. ''{'' @ join '', '' (map quoted xs) @ ''}'')\<rparr>"

section \<open>The conversion rules as the specification words them\<close>

text \<open>
  Section 4.4 of the specification gives the conversion of one value for one column:
  Null is valid only when the column is nullable; INT accepts integer-valued input and
  rejects a float that is not integral; FLOAT accepts numeric input and returns a float;
  VARCHAR accepts any input, turns it into text and rejects text longer than the maximal
  length; BOOLEAN accepts booleans, maps the texts \<open>true\<close>, \<open>1\<close>, \<open>yes\<close> and \<open>on\<close> (in any
  case) to true and any other text to false. \<open>spec_convert_value\<close> follows these words and
  is compared with \<open>convert_value\<close> and \<open>validate_value\<close> below; \<open>None\<close> is a rejected value.
  Integer-valued input is read as a boolean (1 or 0), an integer, an integral float, or a
  text that \<open>int\<close> reads; numeric input as a boolean, an integer that \<open>float\<close> can hold, a float,
  or a text that \<open>float\<close> reads; a number given to BOOLEAN is true when it is not zero.
\<close>

definition spec_convert_value :: "'f builtins \<Rightarrow> column \<Rightarrow> 'f pyval \<Rightarrow> 'f pyval option" where
  "spec_convert_value P c v =
    (if v = PyNone then (if nullable c then Some PyNone else None)
     else if data_type c = ''INT'' then
       (case v of
          PyBool b \<Rightarrow> Some (PyInt (if b then 1 else 0))
        | PyInt i \<Rightarrow> Some (PyInt i)
        | PyFloat x \<Rightarrow> if float_is_integer P x then Some (PyInt (int_of_float P x)) else None
        | PyStr s \<Rightarrow> (case int_of_str P s of Inl m \<Rightarrow> None | Inr i \<Rightarrow> Some (PyInt i))
        | PyNone \<Rightarrow> None)
     else if data_type c = ''FLOAT'' then
       (case v of
          PyBool b \<Rightarrow> (case float_of_int P (if b then 1 else 0) of Inl m \<Rightarrow> None | Inr x \<Rightarrow> Some (PyFloat x))
        | PyInt i \<Rightarrow> (case float_of_int P i of Inl m \<Rightarrow> None | Inr x \<Rightarrow> Some (PyFloat x))
        | PyFloat x \<Rightarrow> Some (PyFloat x)
        | PyStr s \<Rightarrow> (case float_of_str P s of Inl m \<Rightarrow> None | Inr x \<Rightarrow> Some (PyFloat x))
        | PyNone \<Rightarrow> None)
     else if data_type c = ''VARCHAR'' then
       (if int (length (py_str P v)) > max_length_or_255 c then None else Some (PyStr (py_str P v)))
     else if data_type c = ''BOOLEAN'' then
       (case v of
          PyBool b \<Rightarrow> Some (PyBool b)
        | PyStr s \<Rightarrow> Some (PyBool (str_lower s \<in> {''true'', ''1'', ''yes'', ''on''}))
        | PyInt i \<Rightarrow> Some (PyBool (i \<noteq> 0))
        | PyFloat x \<Rightarrow> Some (PyBool (float_truth P x))
        | PyNone \<Rightarrow> None)
     else None)"

text \<open>A tuple is valid for a list of columns when it has one value per column and each converts.\<close>

fun spec_convert_values :: "'f builtins \<Rightarrow> column list \<Rightarrow> 'f pyval list \<Rightarrow> 'f pyval list option" where
  "spec_convert_values P [] [] = Some []"
| "spec_convert_values P (c # cs) (v # vs) =
    (case spec_convert_value P c v of
       None \<Rightarrow> None
     | Some v' \<Rightarrow> (case spec_convert_values P cs vs of None \<Rightarrow> None | Some vs' \<Rightarrow> Some (v' # vs')))"
| "spec_convert_values P cs vs = None"

section \<open>Sample data\<close>

text \<open>
  The table \<open>users (id INT, name VARCHAR(50), age INT)\<close> with no rows, a table \<open>t (n INT)\<close>
  with no rows, and the registries that hold one of them or nothing.
\<close>

definition users_columns :: "column list" where
  "users_columns =
    [\<lparr>col_name = ''id'', data_type = ''INT'', nullable = True, max_length = None\<rparr>,
     \<lparr>col_name = ''name'', data_type = ''VARCHAR'', nullable = True, max_length = Some 50\<rparr>,
     \<lparr>col_name = ''age'', data_type = ''INT'', nullable = True, max_length = None\<rparr>]"

definition users_schema :: schema where
  "users_schema = \<lparr>columns = users_columns, column_index = [(''id'', 0), (''name'', 1), (''age'', 2)]\<rparr>"

definition users_table :: "int table" where
  "users_table = \<lparr>tbl_name = ''users'', tbl_schema = users_schema, tbl_rows = [], row_count = 0\<rparr>"

definition users_storage :: "int storage_manager" where
  "users_storage = \<lparr>tables = [(''users'', users_table)]\<rparr>"

definition empty_storage :: "int storage_manager" where
  "empty_storage = \<lparr>tables = []\<rparr>"

definition flag_column :: column where
  "flag_column = \<lparr>col_name = ''n'', data_type = ''INT'', nullable = True, max_length = None\<rparr>"

definition flag_table :: "int table" where
  "flag_table = \<lparr>tbl_name = ''t'', tbl_schema = \<lparr>columns = [flag_column], column_index = [(''n'', 0)]\<rparr>,
                 tbl_rows = [], row_count = 0\<rparr>"

definition flag_storage :: "int storage_manager" where
  "flag_storage = \<lparr>tables = [(''t'', flag_table)]\<rparr>"

section \<open>Facts about the sample data\<close>

lemmas ascii_defs = ascii_uppercase_def ascii_lowercase_def ascii_digits_def ascii_whitespace_def

lemma str_lower_samples:
  "str_lower ''users'' = ''users''" "str_lower ''ghost'' = ''ghost''" "str_lower ''t'' = ''t''"
  "str_lower ''id'' = ''id''" "str_lower ''name'' = ''name''" "str_lower ''age'' = ''age''"
  by (simp_all add: str_lower_def lower_char_def ascii_defs)

lemma str_of_nat_samples: "str_of_nat 1 = ''1''" "str_of_nat (Suc 0) = ''1''" "str_of_nat 3 = ''3''"
  by (simp_all add: str_of_nat.simps ascii_digits_def)

lemma Schema_users: "Schema users_columns = Inr users_schema"
  by (simp add: Schema_def users_columns_def users_schema_def Let_def str_lower_samples upt_rec)

lemma users_columns_ok: "list_all (column_ok plain_builtins) users_columns"
  by (simp add: users_columns_def column_ok_def Column_def valid_types_def)

lemma get_table_ghost:
  "get_table empty_storage ''ghost''
   = Inl (Exn TableNotFoundError (''Table '' @ quoted ''ghost''
                                  @ '' does not exist. No tables have been created yet''))"
  by (simp add: get_table_def empty_storage_def strip_is_empty_def ascii_defs)

lemma get_table_users: "get_table users_storage ''users'' = Inr users_table"
  by (simp add: get_table_def users_storage_def strip_is_empty_def ascii_defs str_lower_samples)

lemma get_table_flag: "get_table flag_storage ''t'' = Inr flag_table"
  by (simp add: get_table_def flag_storage_def strip_is_empty_def ascii_defs str_lower_samples)

lemma scan_users: "scan_table users_storage ''users'' = Inr []"
  by (simp add: scan_table_def get_table_users scan_def users_table_def)

lemma insert_one_value_users:
  "insert_values plain_builtins users_storage ''users'' [PyInt 1]
    = Inl (Exn ValidationError ''Row has 1 values but table 'users' expects 3 columns'')"
proof -
  have len: "length (columns (tbl_schema users_table)) = 3"
    by (simp add: users_table_def users_schema_def users_columns_def)
  have nm: "tbl_name users_table = ''users''"
    by (simp add: users_table_def)
  show ?thesis
    by (simp add: insert_values_def get_table_users table_insert_values_def table_insert_def
        len nm str_of_nat_samples sq_def)
qed

section \<open>Error kinds that leave the engine\<close>

text \<open>
  Whatever exception the body of \<open>execute\<close> raises, the caller of \<open>execute\<close> receives the
  NameError of the handler.
\<close>

lemma execute_raises_only_NameError:
  "execute P st ops = (Inl e, st') \<Longrightarrow> e = unbound_name ''ProcessingError''"
  by (auto simp: execute_def split: prod.splits sum.splits)

text \<open>
  Below the handler, \<open>_execute_select_operations\<close> does raise the TableNotFoundError that
  names the table.
\<close>

lemma select_ghost_pipeline:
  "execute_select_operations plain_builtins empty_storage [ScanOperation ''ghost'', ProjectOperation [''*'']]
   = Inl (Exn TableNotFoundError (''Table '' @ quoted ''ghost''
                                  @ '' does not exist. No tables have been created yet''))"
  by (simp add: execute_select_operations_def select_pipeline_def scan_table_def get_table_ghost)

text \<open>
  C1. The claim: a domain error (ValidationError, TableNotFoundError, ColumnNotFoundError,
  StorageError, ProcessingError) leaves \<open>ExecutionEngine.execute\<close> unchanged, and
  \<open>SELECT * FROM ghost\<close> with no table \<open>ghost\<close> raises TableNotFoundError naming \<open>ghost\<close>.
  The code differs: on the plan of \<open>SELECT * FROM ghost\<close> and the empty registry, \<open>execute\<close>
  raises NameError, \<open>name 'ProcessingError' is not defined\<close>, which is not a
  TableNotFoundError; the registry is unchanged.
\<close>

theorem select_ghost_raises_NameError:
  "execute plain_builtins empty_storage [ScanOperation ''ghost'', ProjectOperation [''*'']]
     = (Inl (Exn NameError (''name '' @ quoted ''ProcessingError'' @ '' is not defined'')), empty_storage)
   \<and> exn_kind_of (Exn NameError (''name '' @ quoted ''ProcessingError'' @ '' is not defined''))
       \<noteq> TableNotFoundError"
  by (simp add: execute_def execute_body_def is_ScanOperation_def select_ghost_pipeline unbound_name_def)

section \<open>Predicates\<close>

text \<open>
  C2. When the row value or the literal of the predicate is \<open>None\<close>: \<open>=\<close> holds exactly when
  both are \<open>None\<close>; \<open>!=\<close> and \<open><>\<close> hold exactly when one of the two is \<open>None\<close> and the
  other is not; \<open>>\<close>, \<open><\<close>, \<open>>=\<close> and \<open><=\<close> are false.
\<close>

theorem evaluate_null_operand:
  assumes "rv = PyNone \<or> v = PyNone"
  shows "evaluate P \<lparr>wc_column = col, wc_operator = ''='', wc_value = v\<rparr> rv = Inr (rv = PyNone \<and> v = PyNone)
       \<and> evaluate P \<lparr>wc_column = col, wc_operator = ''!='', wc_value = v\<rparr> rv = Inr ((rv = PyNone) \<noteq> (v = PyNone))
       \<and> evaluate P \<lparr>wc_column = col, wc_operator = ''<>'', wc_value = v\<rparr> rv = Inr ((rv = PyNone) \<noteq> (v = PyNone))
       \<and> evaluate P \<lparr>wc_column = col, wc_operator = ''>'', wc_value = v\<rparr> rv = Inr False
       \<and> evaluate P \<lparr>wc_column = col, wc_operator = ''<'', wc_value = v\<rparr> rv = Inr False
       \<and> evaluate P \<lparr>wc_column = col, wc_operator = ''>='', wc_value = v\<rparr> rv = Inr False
       \<and> evaluate P \<lparr>wc_column = col, wc_operator = ''<='', wc_value = v\<rparr> rv = Inr False"
  using assms by (auto simp: evaluate_def)

theorem evaluate_null_operand_witness:
  "((PyNone :: int pyval) = PyNone \<or> (PyInt 5 :: int pyval) = PyNone)
   \<and> evaluate plain_builtins \<lparr>wc_column = ''age'', wc_operator = ''='', wc_value = PyInt 5\<rparr> PyNone = Inr False
   \<and> evaluate plain_builtins \<lparr>wc_column = ''age'', wc_operator = ''!='', wc_value = PyInt 5\<rparr> PyNone = Inr True
   \<and> evaluate plain_builtins \<lparr>wc_column = ''age'', wc_operator = ''>'', wc_value = PyInt 5\<rparr> PyNone = Inr False"
  using evaluate_null_operand [of "PyNone :: int pyval" "PyInt 5" plain_builtins "''age''"] by simp

lemma py_compare_mismatch: "type_mismatch a b \<Longrightarrow> py_compare P a b = None"
  by (cases a; cases b) (simp_all add: type_mismatch_def py_compare_def)

lemma mismatch_abc_5: "type_mismatch (PyStr ''abc'' :: int pyval) (PyInt 5)"
  by (simp add: type_mismatch_def)

text \<open>
  C3, amended. When both operands are not \<open>None\<close> and their types do not compare (a string
  against a number), the predicate raises nothing; it is false for \<open>=\<close>, \<open>>\<close>, \<open><\<close>, \<open>>=\<close>
  and \<open><=\<close>, and true for \<open>!=\<close> and \<open><>\<close>.
\<close>

theorem evaluate_type_mismatch:
  assumes "type_mismatch rv v"
  shows "evaluate P \<lparr>wc_column = col, wc_operator = ''='', wc_value = v\<rparr> rv = Inr False
       \<and> evaluate P \<lparr>wc_column = col, wc_operator = ''!='', wc_value = v\<rparr> rv = Inr True
       \<and> evaluate P \<lparr>wc_column = col, wc_operator = ''<>'', wc_value = v\<rparr> rv = Inr True
       \<and> evaluate P \<lparr>wc_column = col, wc_operator = ''>'', wc_value = v\<rparr> rv = Inr False
       \<and> evaluate P \<lparr>wc_column = col, wc_operator = ''<'', wc_value = v\<rparr> rv = Inr False
       \<and> evaluate P \<lparr>wc_column = col, wc_operator = ''>='', wc_value = v\<rparr> rv = Inr False
       \<and> evaluate P \<lparr>wc_column = col, wc_operator = ''<='', wc_value = v\<rparr> rv = Inr False"
proof -
  have n: "rv \<noteq> PyNone" "v \<noteq> PyNone"
    using assms by (simp_all add: type_mismatch_def)
  have c: "py_compare P rv v = None"
    using assms by (rule py_compare_mismatch)
  show ?thesis
    using n c by (simp add: evaluate_def py_eq_def py_ne_def py_order_def)
qed

theorem evaluate_type_mismatch_witness:
  "type_mismatch (PyStr ''abc'' :: int pyval) (PyInt 5)
   \<and> evaluate plain_builtins \<lparr>wc_column = ''age'', wc_operator = ''>'', wc_value = PyInt 5\<rparr> (PyStr ''abc'') = Inr False
   \<and> evaluate plain_builtins \<lparr>wc_column = ''age'', wc_operator = ''<>'', wc_value = PyInt 5\<rparr> (PyStr ''abc'') = Inr True"
  using evaluate_type_mismatch [OF mismatch_abc_5, of plain_builtins "''age''"] mismatch_abc_5 by simp

text \<open>
  C3 as first stated asks for false under every operator. The row value \<open>'abc'\<close> against
  the literal \<open>5\<close> under \<open>!=\<close> is not false.
\<close>

theorem not_equal_type_mismatch_counterexample:
  "type_mismatch (PyStr ''abc'' :: int pyval) (PyInt 5)
   \<and> evaluate plain_builtins \<lparr>wc_column = ''age'', wc_operator = ''!='', wc_value = PyInt 5\<rparr> (PyStr ''abc'')
       \<noteq> Inr False"
  by (simp add: type_mismatch_def evaluate_def py_ne_def py_eq_def py_compare_def)

section \<open>Insertion\<close>

text \<open>
  Under the engine's handlers, a row of the wrong length is refused by \<open>Table.insert\<close>
  itself, before \<open>convert_row\<close> and its message \<open>Expected n values, got m\<close> are reached.
\<close>

lemma table_arity_mismatch_message:
  assumes "get_table st nm = Inr t" and "vs \<noteq> []" and "length vs \<noteq> length (columns (tbl_schema t))"
  shows "insert_values P st nm vs
         = Inl (Exn ValidationError
                (''Row has '' @ str_of_nat (length vs) @ '' values but table '' @ quoted (tbl_name t)
                 @ '' expects '' @ str_of_nat (length (columns (tbl_schema t))) @ '' columns''))"
  using assms by (simp add: insert_values_def table_insert_values_def table_insert_def quoted_def)

text \<open>
  C4. The claim: an INSERT whose number of values differs from the number of columns fails
  with a ValidationError that states the expected and the actual count, and one value into
  the three columns of \<open>users\<close> gives a ValidationError mentioning \<open>Expected 3 values\<close>.
  The code differs: \<open>execute\<close> on \<open>INSERT INTO users VALUES (1)\<close> raises NameError, and the
  ValidationError that \<open>StorageManager.insert_values\<close> raises below it reads
  \<open>Row has 1 values but table 'users' expects 3 columns\<close>, which does not contain
  \<open>Expected 3 values\<close>.
\<close>

theorem insert_arity_mismatch_users:
  "execute plain_builtins users_storage [InsertOperation ''users'' [PyInt 1]]
     = (Inl (Exn NameError (''name '' @ quoted ''ProcessingError'' @ '' is not defined'')), users_storage)
   \<and> insert_values plain_builtins users_storage ''users'' [PyInt 1]
     = Inl (Exn ValidationError ''Row has 1 values but table 'users' expects 3 columns'')
   \<and> \<not> contains ''Expected 3 values'' ''Row has 1 values but table 'users' expects 3 columns''"
  by (simp add: execute_def execute_body_def is_ScanOperation_def execute_operation_def
       get_table_users insert_one_value_users unbound_name_def)

lemma insert_all_rows:
  "list_all2 (\<lambda>vs cs. validate_and_convert_row P (tbl_schema t) vs = Inr cs) vss css \<Longrightarrow>
   insert_all P t vss = Inr (t\<lparr>tbl_rows := tbl_rows t @ map Row css, row_count := row_count t + length css\<rparr>)"
proof (induction vss arbitrary: t css)
  case Nil
  then show ?case by simp
next
  case (Cons vs vss)
  then obtain cs css' where css: "css = cs # css'"
    and ok: "validate_and_convert_row P (tbl_schema t) vs = Inr cs"
    and rest: "list_all2 (\<lambda>vs cs. validate_and_convert_row P (tbl_schema t) vs = Inr cs) vss css'"
    by (auto simp: list_all2_Cons1)
  have len: "length vs = length (columns (tbl_schema t))"
    using ok by (auto simp: validate_and_convert_row_def convert_row_def split: if_splits sum.splits)
  let ?t' = "t\<lparr>tbl_rows := tbl_rows t @ [Row cs], row_count := row_count t + 1\<rparr>"
  have step: "table_insert_values P t vs = Inr ?t'"
    using ok len by (simp add: table_insert_values_def table_insert_def)
  have "insert_all P ?t' vss
        = Inr (?t'\<lparr>tbl_rows := tbl_rows ?t' @ map Row css', row_count := row_count ?t' + length css'\<rparr>)"
    using Cons.IH [of ?t' css'] rest by simp
  then show ?case
    using step css by simp
qed

text \<open>
  The code and the rules agree: \<open>convert_value\<close> followed by \<open>validate_value\<close> accepts a
  value exactly when the rules do, with the same converted value, and so does
  \<open>validate_and_convert_row\<close> for a tuple.
\<close>

lemma convert_value_spec:
  "(convert_value P c v = Inr v' \<and> validate_value c v') = (spec_convert_value P c v = Some v')"
  by (cases v)
     (auto simp: convert_value_def convert_body_def spec_convert_value_def
           split: sum.splits if_splits exn.splits)

lemma spec_convert_values_length:
  "spec_convert_values P cs vs = Some vs' \<Longrightarrow> length vs = length cs \<and> length vs' = length cs"
  by (induction P cs vs arbitrary: vs' rule: spec_convert_values.induct)
     (auto split: option.splits)

lemma convert_zip_spec:
  "length vs = length cs \<Longrightarrow>
   (convert_zip P vs cs = Inr vs' \<and> list_all (\<lambda>(v, c). validate_value c v) (zip vs' cs))
   = (spec_convert_values P cs vs = Some vs')"
proof (induction cs arbitrary: vs vs')
  case Nil
  then show ?case by auto
next
  case (Cons c cs)
  then obtain v vt where vs: "vs = v # vt" and len: "length vt = length cs"
    by (cases vs) auto
  show ?case
  proof (cases vs')
    case Nil
    then show ?thesis
      using vs by (auto split: sum.splits option.splits)
  next
    case (Cons w ws)
    have a: "(convert_value P c v = Inr w \<and> validate_value c w) = (spec_convert_value P c v = Some w)"
      by (rule convert_value_spec)
    have b: "(convert_zip P vt cs = Inr ws \<and> list_all (\<lambda>(v, c). validate_value c v) (zip ws cs))
             = (spec_convert_values P cs vt = Some ws)"
      using Cons.IH [OF len] .
    show ?thesis
      unfolding vs Cons using a b by (auto split: sum.splits option.splits)
  qed
qed

lemma convert_zip_length:
  "convert_zip P vs cs = Inr vs' \<Longrightarrow> length vs = length cs \<Longrightarrow> length vs' = length cs"
  by (induction P vs cs arbitrary: vs' rule: convert_zip.induct) (auto split: sum.splits)

lemma validate_and_convert_row_spec:
  "(validate_and_convert_row P s vs = Inr cs) = (spec_convert_values P (columns s) vs = Some cs)"
proof (cases "length vs = length (columns s)")
  case False
  then show ?thesis
    by (auto simp: validate_and_convert_row_def convert_row_def dest: spec_convert_values_length)
next
  case True
  have "(validate_and_convert_row P s vs = Inr cs)
        = (convert_zip P vs (columns s) = Inr cs
           \<and> list_all (\<lambda>(v, c). validate_value c v) (zip cs (columns s)))"
    using True
    by (auto simp: validate_and_convert_row_def convert_row_def validate_row_def
             split: sum.splits if_splits dest: convert_zip_length)
  then show ?thesis
    using convert_zip_spec [OF True] by simp
qed

text \<open>
  C7. Let each tuple of \<open>vss\<close> be valid for the columns of the table under the conversion
  rules, with the converted tuples \<open>css\<close>, in the same order. Then each tuple passes
  \<open>validate_and_convert_row\<close> with that converted tuple, inserting the tuples of \<open>vss\<close> one
  after the other succeeds, and a scan of the table yields the rows it had before followed
  by exactly the converted tuples, in the order of insertion.
\<close>

theorem insert_then_scan:
  assumes "list_all2 (\<lambda>vs cs. spec_convert_values P (columns (tbl_schema t)) vs = Some cs) vss css"
  shows "list_all2 (\<lambda>vs cs. validate_and_convert_row P (tbl_schema t) vs = Inr cs) vss css
       \<and> (\<exists>t'. insert_all P t vss = Inr t' \<and> scan t' = scan t @ map Row css)"
proof -
  have code: "list_all2 (\<lambda>vs cs. validate_and_convert_row P (tbl_schema t) vs = Inr cs) vss css"
    using assms by (simp add: validate_and_convert_row_spec)
  then show ?thesis
    using insert_all_rows [OF code] by (simp add: scan_def)
qed

lemma plain_int_25: "plain_int_of_str ''25'' = Inr 25"
  by (simp add: plain_int_of_str_def ascii_digits_def upt_rec)

lemma str_of_int_7: "str_of_int 7 = ''7''"
  by (simp add: str_of_int_def str_of_nat.simps ascii_digits_def)

lemma two_rows_valid:
  "list_all2 (\<lambda>vs cs. spec_convert_values plain_builtins (columns (tbl_schema users_table)) vs = Some cs)
     [[PyBool True, PyInt 7, PyStr ''25''], [PyInt 2, PyStr ''Bob'', PyInt 30]]
     [[PyInt 1, PyStr ''7'', PyInt 25], [PyInt 2, PyStr ''Bob'', PyInt 30]]"
  by (simp add: users_table_def users_schema_def users_columns_def spec_convert_value_def
      plain_builtins_def plain_int_25 str_of_int_7 max_length_or_255_def)

text \<open>
  The first tuple below is converted in every column: the boolean to the integer 1, the
  integer 7 to the text \<open>7\<close>, and the text \<open>25\<close> to the integer 25.
\<close>

theorem insert_then_scan_witness:
  "list_all2 (\<lambda>vs cs. spec_convert_values plain_builtins (columns (tbl_schema users_table)) vs = Some cs)
     [[PyBool True, PyInt 7, PyStr ''25''], [PyInt 2, PyStr ''Bob'', PyInt 30]]
     [[PyInt 1, PyStr ''7'', PyInt 25], [PyInt 2, PyStr ''Bob'', PyInt 30]]
   \<and> validate_and_convert_row plain_builtins (tbl_schema users_table) [PyBool True, PyInt 7, PyStr ''25'']
       = Inr [PyInt 1, PyStr ''7'', PyInt 25]
   \<and> (\<exists>t'. insert_all plain_builtins users_table
               [[PyBool True, PyInt 7, PyStr ''25''], [PyInt 2, PyStr ''Bob'', PyInt 30]] = Inr t'
          \<and> scan t' = [Row [PyInt 1, PyStr ''7'', PyInt 25], Row [PyInt 2, PyStr ''Bob'', PyInt 30]])"
  using insert_then_scan [OF two_rows_valid] two_rows_valid
  by (simp add: scan_def users_table_def)

lemma convert_bool_INT:
  "data_type c = ''INT'' \<Longrightarrow> convert_value P c (PyBool b) = Inr (PyInt (if b then 1 else 0))"
  by (simp add: convert_value_def convert_body_def)

lemma parse_TRUE: "parse_single_value P [''TRUE''] = Inr (PyBool True)"
  by (simp add: parse_single_value_def str_upper_def upper_char_def ascii_defs)

lemma row_bool_INT:
  assumes "data_type c = ''INT''" and "columns s = [c]"
  shows "validate_and_convert_row P s [PyBool b] = Inr [PyInt (if b then 1 else 0)]"
  using assms
  by (simp add: validate_and_convert_row_def convert_row_def validate_row_def convert_bool_INT)

text \<open>
  C10. For a column of type INT, a boolean is accepted: \<open>convert_value\<close> turns \<open>True\<close>
  into 1 and \<open>False\<close> into 0, and the result passes \<open>validate_value\<close>. The token \<open>TRUE\<close> is
  parsed as the boolean \<open>True\<close>, and executing the insertion of \<open>True\<close> into a table whose
  only column is of type INT succeeds and appends the row \<open>[1]\<close>.
\<close>

theorem bool_into_int_column:
  assumes "data_type c = ''INT''" and "columns (tbl_schema t) = [c]" and "get_table st nm = Inr t"
  shows "parse_single_value P [''TRUE''] = Inr (PyBool True)
       \<and> convert_value P c (PyBool b) = Inr (PyInt (if b then 1 else 0))
       \<and> validate_value c (PyInt (if b then 1 else 0) :: 'f pyval)
       \<and> execute P st [InsertOperation nm [PyBool True]]
           = (Inr (message_result (''1 row inserted into table '' @ quoted (tbl_name t) @ ''.'')),
              st\<lparr>tables := AList.update (str_lower nm)
                     (t\<lparr>tbl_rows := tbl_rows t @ [Row [PyInt 1]], row_count := row_count t + 1\<rparr>) (tables st)\<rparr>)"
proof -
  have ins: "table_insert_values P t [PyBool True]
             = Inr (t\<lparr>tbl_rows := tbl_rows t @ [Row [PyInt 1]], row_count := row_count t + 1\<rparr>)"
    using assms(2) row_bool_INT [OF assms(1) assms(2), of P True]
    by (simp add: table_insert_values_def table_insert_def)
  have "insert_values P st nm [PyBool True]
        = Inr (st\<lparr>tables := AList.update (str_lower nm)
                     (t\<lparr>tbl_rows := tbl_rows t @ [Row [PyInt 1]], row_count := row_count t + 1\<rparr>) (tables st)\<rparr>)"
    using assms(3) ins by (simp add: insert_values_def)
  then have "execute P st [InsertOperation nm [PyBool True]]
           = (Inr (message_result (''1 row inserted into table '' @ quoted (tbl_name t) @ ''.'')),
              st\<lparr>tables := AList.update (str_lower nm)
                     (t\<lparr>tbl_rows := tbl_rows t @ [Row [PyInt 1]], row_count := row_count t + 1\<rparr>) (tables st)\<rparr>)"
    using assms(3) by (simp add: execute_def execute_body_def execute_operation_def)
  then show ?thesis
    using assms(1) by (simp add: parse_TRUE convert_bool_INT)
qed

lemma flag_column_INT: "data_type flag_column = ''INT''"
  by (simp add: flag_column_def)

lemma flag_table_columns: "columns (tbl_schema flag_table) = [flag_column]"
  by (simp add: flag_table_def)

theorem bool_into_int_column_witness:
  "data_type flag_column = ''INT'' \<and> columns (tbl_schema flag_table) = [flag_column]
   \<and> get_table flag_storage ''t'' = Inr flag_table
   \<and> convert_value plain_builtins flag_column (PyBool True) = Inr (PyInt 1)
   \<and> execute plain_builtins flag_storage [InsertOperation ''t'' [PyBool True]]
       = (Inr (message_result ''1 row inserted into table 't'.''),
          \<lparr>tables = [(''t'', flag_table\<lparr>tbl_rows := [Row [PyInt 1]], row_count := 1\<rparr>)]\<rparr>)"
  using bool_into_int_column [OF flag_column_INT flag_table_columns get_table_flag, of plain_builtins True]
        flag_column_INT flag_table_columns get_table_flag
  by (simp add: str_lower_samples flag_storage_def flag_table_def quoted_def sq_def)

section \<open>Projection\<close>

lemma collect_first_failure:
  "\<exists>x\<in>set xs. isl (f x) \<Longrightarrow> \<exists>x\<in>set xs. isl (f x) \<and> collect f xs = Inl (projl (f x))"
proof (induction xs)
  case Nil
  then show ?case by simp
next
  case (Cons a xs)
  show ?case
  proof (cases "f a")
    case (Inl e)
    then show ?thesis by simp
  next
    case (Inr y)
    then have "\<exists>x\<in>set xs. isl (f x)"
      using Cons.prems by auto
    then obtain x where "x \<in> set xs" and "isl (f x)" and "collect f xs = Inl (projl (f x))"
      using Cons.IH by blast
    then show ?thesis
      using Inr by auto
  qed
qed

text \<open>
  Over at least one input row, a requested column that the schema lacks makes
  \<open>ProjectOperation.execute\<close> raise the ColumnNotFoundError that names a missing column.
\<close>

lemma project_missing_column_nonempty_input:
  assumes "rows \<noteq> []" and "get_table st tn = Inr t"
    and "\<not> (length cols = 1 \<and> hd cols = ''*'')"
    and "\<exists>c\<in>set cols. map_of (column_index (tbl_schema t)) (str_lower c) = None"
  shows "\<exists>c\<in>set cols. project_execute st cols (Some rows) (Some tn)
           = Inl (Exn ColumnNotFoundError (''Column '' @ quoted c @ '' not found in table '' @ quoted tn))"
proof -
  let ?f = "find_column_index (tbl_schema t) tn"
  have ok: "\<And>c. isl (?f c) \<Longrightarrow>
      ?f c = Inl (Exn ColumnNotFoundError (''Column '' @ quoted c @ '' not found in table '' @ quoted tn))"
    by (auto simp: find_column_index_def get_column_index_def split: option.splits)
  obtain c0 where "c0 \<in> set cols" and "map_of (column_index (tbl_schema t)) (str_lower c0) = None"
    using assms(4) by blast
  then have "isl (?f c0)"
    by (simp add: find_column_index_def get_column_index_def)
  with \<open>c0 \<in> set cols\<close> have "\<exists>c\<in>set cols. isl (?f c)"
    by blast
  then obtain c where c: "c \<in> set cols" and isl: "isl (?f c)"
    and col: "collect ?f cols = Inl (projl (?f c))"
    using collect_first_failure [of cols ?f] by blast
  have "collect ?f cols
        = Inl (Exn ColumnNotFoundError (''Column '' @ quoted c @ '' not found in table '' @ quoted tn))"
    using col ok [OF isl] by simp
  then have "project_execute st cols (Some rows) (Some tn)
        = Inl (Exn ColumnNotFoundError (''Column '' @ quoted c @ '' not found in table '' @ quoted tn))"
    using assms(1,2,3) by (simp add: project_execute_def)
  with c show ?thesis
    by blast
qed

text \<open>
  C5. The claim: over any input rows, the empty sequence included, a requested column list
  that is not \<open>['*']\<close> and holds a name absent from the schema makes
  \<open>ProjectOperation.execute\<close> fail with ColumnNotFoundError. The code differs on the empty
  sequence: projecting \<open>nonexistent_column\<close> over no rows of \<open>users\<close> returns the empty list
  and raises nothing.
\<close>

theorem project_missing_column_empty_input:
  "get_table users_storage ''users'' = Inr users_table
   \<and> get_column_index (tbl_schema users_table) ''nonexistent_column''
       = Inl (Exn ValidationError ''Column 'nonexistent_column' not found in schema'')
   \<and> project_execute users_storage [''nonexistent_column''] (Some []) (Some ''users'') = Inr []"
  by (simp add: project_execute_def get_table_users get_column_index_def users_table_def
      users_schema_def str_lower_def lower_char_def ascii_defs sq_def)

section \<open>Recognition of a SELECT plan\<close>

lemma execute_operation_message:
  "execute_operation P st op = (Inr r, st') \<Longrightarrow> \<not> is_data_result r \<and> qr_message r \<noteq> None"
  by (auto simp: execute_operation_def message_result_def is_data_result_def
           split: prod.splits sum.splits op_result.splits)

lemma execute_sequentially_message:
  "execute_sequentially P st ops acc = (Inr (Some r), st') \<Longrightarrow>
   (case acc of None \<Rightarrow> True | Some a \<Rightarrow> \<not> is_data_result a \<and> qr_message a \<noteq> None) \<Longrightarrow>
   \<not> is_data_result r \<and> qr_message r \<noteq> None"
proof (induction ops arbitrary: st acc)
  case Nil
  then show ?case by (auto split: option.splits)
next
  case (Cons op ops)
  obtain x st1 where eo: "execute_operation P st op = (x, st1)"
    by (cases "execute_operation P st op")
  show ?case
  proof (cases x)
    case (Inl e)
    then show ?thesis
      using Cons.prems eo by simp
  next
    case (Inr r1)
    have m: "\<not> is_data_result r1 \<and> qr_message r1 \<noteq> None"
      using eo Inr by (auto dest: execute_operation_message)
    have "execute_sequentially P st1 ops (Some r1) = (Inr (Some r), st')"
      using Cons.prems(1) eo Inr by simp
    then show ?thesis
      using Cons.IH [of st1 "Some r1"] m by simp
  qed
qed

text \<open>
  What \<open>_execute_select_operations\<close> returns when it succeeds: the rows are the projection
  of the scan of the table, filtered in between when the plan holds a FilterOperation;
  the columns are the requested names, or all names of the table for \<open>['*']\<close>; there is
  no message.
\<close>

lemma select_success_shape:
  "case execute_select_operations P st ops of
     Inl e \<Rightarrow> True
   | Inr r \<Rightarrow>
      (case find_select_operations ops (None, None, None) of
         (Some nm, filter_op, Some cols) \<Rightarrow>
           (case scan_table st nm of
              Inl e \<Rightarrow> False
            | Inr rows \<Rightarrow>
               (case (case filter_op of
                        None \<Rightarrow> Inr rows
                      | Some w \<Rightarrow> filter_execute P st w (Some rows) (Some nm)) of
                  Inl e \<Rightarrow> False
                | Inr rows' \<Rightarrow>
                    project_execute st cols (Some rows') (Some nm) = Inr (qr_rows r)
                    \<and> (if length cols = 1 \<and> hd cols = ''*''
                        then map_sum id (\<lambda>t. get_column_names (tbl_schema t)) (get_table st nm)
                        else Inr cols) = Inr (qr_columns r)
                    \<and> qr_message r = None))
       | _ \<Rightarrow> False)"
  by (auto simp: execute_select_operations_def select_pipeline_def
           split: sum.splits prod.splits option.splits if_splits)

lemma execute_dispatch_equation:
  "execute P st ops =
     (if ops = [] then (Inr (message_result ''No operations to execute.''), st)
      else if 2 \<le> length ops \<and> list_ex is_ScanOperation ops
      then (case execute_select_operations P st ops of
              Inl e \<Rightarrow> Inl (unbound_name ''ProcessingError'') | Inr r \<Rightarrow> Inr r, st)
      else (case execute_sequentially P st ops None of
              (Inl e, st') \<Rightarrow> (Inl (unbound_name ''ProcessingError''), st')
            | (Inr None, st') \<Rightarrow> (Inr (message_result ''Operation completed successfully.''), st')
            | (Inr (Some r), st') \<Rightarrow> (Inr r, st')))"
  by (simp add: execute_def execute_body_def split: sum.splits prod.splits option.splits)

lemma sequential_success_message:
  "case execute_sequentially P st ops None of
     (Inr (Some r), st') \<Rightarrow> \<not> is_data_result r \<and> qr_message r \<noteq> None
   | _ \<Rightarrow> True"
  using execute_sequentially_message [where P = P and st = st and ops = ops and acc = None]
  by (auto split: prod.splits sum.splits option.splits)

text \<open>
  C6, amended. A plan is run as a SELECT pipeline exactly when it has at least two
  operations and contains a ScanOperation: \<open>execute\<close> then returns what
  \<open>_execute_select_operations\<close> returns (its error replaced by the NameError of the
  handler) and the storage as it was. The pipeline scans the table, filters the rows when
  the plan holds a FilterOperation, and projects them; when it succeeds the result has no
  message, its rows are the projected rows, and its columns are the requested names, or
  all names of the table for \<open>['*']\<close>. The empty plan returns the message
  \<open>No operations to execute.\<close>. Every other plan, a ScanOperation alone included, is run
  operation by operation, each on the storage the one before left: \<open>execute\<close> returns the
  result of the last operation, or the NameError when one fails. A result of that loop is
  a message and holds no columns and no rows.
\<close>

theorem select_pipeline_dispatch:
  "execute P st ops =
     (if ops = [] then (Inr (message_result ''No operations to execute.''), st)
      else if 2 \<le> length ops \<and> list_ex is_ScanOperation ops
      then (case execute_select_operations P st ops of
              Inl e \<Rightarrow> Inl (unbound_name ''ProcessingError'') | Inr r \<Rightarrow> Inr r, st)
      else (case execute_sequentially P st ops None of
              (Inl e, st') \<Rightarrow> (Inl (unbound_name ''ProcessingError''), st')
            | (Inr None, st') \<Rightarrow> (Inr (message_result ''Operation completed successfully.''), st')
            | (Inr (Some r), st') \<Rightarrow> (Inr r, st')))
   \<and> (case execute_select_operations P st ops of
         Inl e \<Rightarrow> True
       | Inr r \<Rightarrow>
          (case find_select_operations ops (None, None, None) of
             (Some nm, filter_op, Some cols) \<Rightarrow>
               (case scan_table st nm of
                  Inl e \<Rightarrow> False
                | Inr rows \<Rightarrow>
                   (case (case filter_op of
                            None \<Rightarrow> Inr rows
                          | Some w \<Rightarrow> filter_execute P st w (Some rows) (Some nm)) of
                      Inl e \<Rightarrow> False
                    | Inr rows' \<Rightarrow>
                        project_execute st cols (Some rows') (Some nm) = Inr (qr_rows r)
                        \<and> (if length cols = 1 \<and> hd cols = ''*''
                            then map_sum id (\<lambda>t. get_column_names (tbl_schema t)) (get_table st nm)
                            else Inr cols) = Inr (qr_columns r)
                        \<and> qr_message r = None))
           | _ \<Rightarrow> False))
   \<and> (case execute_sequentially P st ops None of
         (Inr (Some r), st') \<Rightarrow> \<not> is_data_result r \<and> qr_message r \<noteq> None
       | _ \<Rightarrow> True)"
  using execute_dispatch_equation [where P = P and st = st and ops = ops]
        select_success_shape [where P = P and st = st and ops = ops]
        sequential_success_message [where P = P and st = st and ops = ops]
  by blast

lemma select_all_users:
  "execute_select_operations plain_builtins users_storage [ScanOperation ''users'', ProjectOperation [''*'']]
   = Inr \<lparr>qr_columns = [''id'', ''name'', ''age''], qr_rows = [], qr_message = None\<rparr>"
  by (simp add: execute_select_operations_def select_pipeline_def scan_users project_execute_def
      get_table_users get_column_names_def users_table_def users_schema_def users_columns_def)

theorem select_pipeline_dispatch_witness:
  "execute plain_builtins users_storage [ScanOperation ''users'', ProjectOperation [''*'']]
     = (Inr \<lparr>qr_columns = [''id'', ''name'', ''age''], qr_rows = [], qr_message = None\<rparr>, users_storage)
   \<and> execute plain_builtins users_storage [ScanOperation ''users'']
     = (Inr (message_result ''[]''), users_storage)
   \<and> execute plain_builtins users_storage [] = (Inr (message_result ''No operations to execute.''), users_storage)"
  using select_pipeline_dispatch [where P = plain_builtins and st = users_storage
                                  and ops = "[ScanOperation ''users'', ProjectOperation [''*'']]",
                                  THEN conjunct1]
        select_pipeline_dispatch [where P = plain_builtins and st = users_storage
                                  and ops = "[ScanOperation ''users'']", THEN conjunct1]
        select_pipeline_dispatch [where P = plain_builtins and st = users_storage and ops = "[]",
                                  THEN conjunct1]
  by (simp add: is_ScanOperation_def select_all_users execute_operation_def scan_users
      str_of_rows_def str_of_list_def)

text \<open>
  C6 as first stated has no condition besides the presence of a ScanOperation. The plan
  that is a ScanOperation of \<open>users\<close> alone contains one, and \<open>execute\<close> returns the message
  \<open>[]\<close>, the text of the scanned list, where the SELECT pipeline fails for want of a
  ProjectOperation.
\<close>

theorem lone_scan_counterexample:
  "list_ex is_ScanOperation [ScanOperation ''users'' :: int operation]
   \<and> execute plain_builtins users_storage [ScanOperation ''users'']
       = (Inr (message_result ''[]''), users_storage)
   \<and> execute_select_operations plain_builtins users_storage [ScanOperation ''users'']
       = Inl (Exn ExecutionError ''Failed to execute SELECT operations: No ProjectOperation found in SELECT query'')"
  by (simp add: is_ScanOperation_def execute_def execute_body_def execute_operation_def scan_users
      str_of_rows_def str_of_list_def execute_select_operations_def select_pipeline_def)

section \<open>Storage after a failing statement\<close>

lemma operation_execute_failure: "operation_execute P st op = (Inl e, st') \<Longrightarrow> st' = st"
  by (cases op) (auto split: sum.splits)

lemma execute_operation_failure: "execute_operation P st op = (Inl e, st') \<Longrightarrow> st' = st"
  by (auto simp: execute_operation_def split: prod.splits sum.splits op_result.splits
           dest: operation_execute_failure)

lemma execute_single_failure: "execute P st [op] = (Inl e, st') \<Longrightarrow> st' = st"
  by (auto simp: execute_def execute_body_def split: prod.splits sum.splits option.splits
           dest: execute_operation_failure)

lemma execute_select_plan_storage:
  "execute P st (ScanOperation nm # ops @ [ProjectOperation cols]) = (r, st') \<Longrightarrow> st' = st"
  by (auto simp: execute_def execute_body_def is_ScanOperation_def split: prod.splits sum.splits)

text \<open>
  The plan of a statement is one operation, or a scan followed by a projection with at
  most a filter between them.
\<close>

lemma process_plan_shape:
  "process node = Inr plan \<Longrightarrow>
   (\<exists>op. plan = [op]) \<or> (\<exists>nm ops cols. plan = ScanOperation nm # ops @ [ProjectOperation cols])"
  by (cases node)
     (auto simp: process_def visit_create_table_def visit_insert_def visit_select_def visit_handler_def
           split: sum.splits if_splits option.splits)

text \<open>
  C8. A statement that fails, in the parser, in the query processor or in the execution
  engine, leaves the storage exactly as it was before the statement: no table is added or
  removed and no row is appended.
\<close>

theorem failing_statement_keeps_storage:
  assumes "execute_sql P parse st sql = (Inl e, st')"
  shows "st' = st"
proof (cases "parse sql")
  case (Inl a)
  then show ?thesis
    using assms by (simp add: execute_sql_def)
next
  case (Inr node)
  show ?thesis
  proof (cases "process node")
    case (Inl a)
    then show ?thesis
      using assms Inr by (simp add: execute_sql_def)
  next
    case plan: (Inr plan)
    obtain r st'' where ex: "execute P st plan = (r, st'')"
      by (cases "execute P st plan")
    from assms Inr plan ex have "st'' = st'" and "\<exists>e'. r = Inl e'"
      by (auto simp: execute_sql_def split: sum.splits)
    then obtain e' where r: "r = Inl e'"
      by blast
    from process_plan_shape [OF plan] show ?thesis
    proof
      assume "\<exists>op. plan = [op]"
      then show ?thesis
        using ex r \<open>st'' = st'\<close> by (auto dest: execute_single_failure)
    next
      assume "\<exists>nm ops cols. plan = ScanOperation nm # ops @ [ProjectOperation cols]"
      then show ?thesis
        using ex \<open>st'' = st'\<close> by (auto dest: execute_select_plan_storage)
    qed
  qed
qed

lemma failing_insert_statement:
  "execute_sql plain_builtins (\<lambda>sql. Inr (InsertNode ''users'' [PyInt 1])) users_storage
      ''INSERT INTO users VALUES (1)''
   = (Inl (Exn SQLEngineError (''Unexpected error executing SQL: name '' @ quoted ''ProcessingError''
                               @ '' is not defined'')), users_storage)"
  by (simp add: execute_sql_def process_def visit_insert_def visit_handler_def
      execute_def execute_body_def execute_operation_def get_table_users insert_one_value_users
      unbound_name_def sql_handler_def is_SQLEngineError_def)

theorem failing_statement_keeps_storage_witness:
  "execute_sql plain_builtins (\<lambda>sql. Inr (InsertNode ''users'' [PyInt 1])) users_storage
      ''INSERT INTO users VALUES (1)''
   = (Inl (Exn SQLEngineError (''Unexpected error executing SQL: name '' @ quoted ''ProcessingError''
                               @ '' is not defined'')), users_storage)
   \<and> users_storage = users_storage"
  using failing_statement_keeps_storage [OF failing_insert_statement] failing_insert_statement
  by simp

section \<open>Round trip of a schema through its description\<close>

text \<open>Every column that the constructor returns is left unchanged by constructing it again.\<close>

lemma Column_result_ok: "Column P nm dt nl ml = Inr c \<Longrightarrow> column_ok P c"
  by (auto simp: Column_def column_ok_def Let_def split: if_splits)

text \<open>
  C9. For a schema built by the constructor from columns as their constructor leaves them
  (a non-empty list, the lower-cased names distinct), \<open>from_dict\<close> of \<open>to_dict\<close> succeeds
  with a schema equal to the original: the same columns in the same order, each with the
  same name, type, nullability and maximal length.
\<close>

theorem schema_round_trip:
  assumes "list_all (column_ok P) cs" and "Schema cs = Inr s"
  shows "\<exists>s'. from_dict P (to_dict s) = Inr s' \<and> schema_eq s' s \<and> columns s' = cs"
proof -
  have cols: "columns s = cs"
    using assms(2) by (auto simp: Schema_def Let_def split: if_splits)
  have "columns_from_dicts P
          (map (\<lambda>col. \<lparr>cd_name = Some (col_name col), cd_data_type = Some (data_type col),
                       cd_nullable = Some (nullable col), cd_max_length = Some (max_length col)\<rparr>) cs)
        = Inr cs"
    using assms(1) by (induction cs) (simp_all add: column_from_dict_def column_ok_def)
  then have "from_dict P (to_dict s) = Inr s"
    using assms(2) by (simp add: from_dict_def to_dict_def cols)
  then show ?thesis
    by (simp add: schema_eq_def cols)
qed

theorem schema_round_trip_witness:
  "list_all (column_ok plain_builtins) users_columns \<and> Schema users_columns = Inr users_schema
   \<and> (\<exists>s'. from_dict plain_builtins (to_dict users_schema) = Inr s' \<and> schema_eq s' users_schema
           \<and> columns s' = users_columns)"
  using schema_round_trip [OF users_columns_ok Schema_users] users_columns_ok Schema_users by simp

end
